theory Spec2Isabelle
  imports Complex_Main
begin

section \<open>Numbers\<close>

text \<open>
  Every number of the program is an IEEE-754 double. Integer-valued quantities (seeds,
  counters, scores, level numbers) are modelled as \<open>int\<close>; where their arithmetic can
  leave the range in which doubles are exact (the seed recurrence of \<open>SeededRandom\<close>),
  the rounding to 53 significant bits is written out with \<open>fl\<close>. Quantities that are
  not integers (times, positions, probabilities, multipliers) are modelled as exact
  reals.
\<close>

text \<open>The number of low bits a non-negative integer loses when stored in a double.\<close>

function expo53 :: "int \<Rightarrow> nat" where
  "expo53 n = (if n < 9007199254740992 then 0 else Suc (expo53 (n div 2)))"
  by pat_completeness auto
termination
  by (relation "measure nat") auto

declare expo53.simps [simp del]

text \<open>
  The double nearest to an integer (round to nearest, ties to even): what the
  runtime stores for the exact result of an integer product or sum.
\<close>

definition fl :: "int \<Rightarrow> int" where
  "fl n =
     (let m = \<bar>n\<bar>; e = expo53 m; q = m div 2 ^ e; r = m mod 2 ^ e
      in if e = 0 then n
         else sgn n * (if 2 ^ e < 2 * r \<or> (2 * r = 2 ^ e \<and> odd q) then q + 1 else q) * 2 ^ e)"

section \<open>SeededRandom (engine.ts and levels.ts carry the same class)\<close>

text \<open>
  The object's only field is \<open>seed\<close>. \<open>next()\<close> stores
  \<open>(seed * 1103515245 + 12345) & 0x7fffffff\<close> and returns \<open>seed / 0x7fffffff\<close>.
  The product and the sum are double operations; \<open>&\<close> converts its operand to a
  32-bit integer (the value modulo \<open>2^32\<close>) and keeps the low 31 bits.
  The result is the pair of the returned value and the new seed.
\<close>

definition SeededRandom_next :: "int \<Rightarrow> real \<times> int" where
  "SeededRandom_next seed =
     (let seed' = fl (fl (seed * 1103515245) + 12345) mod 2147483648
      in (real_of_int seed' / 2147483647, seed'))"


section \<open>Types (types.ts)\<close>

datatype NoteType = Normal | Double | Hold

datatype HitRating = Perfect | Great | Good | Miss

datatype Screen = Menu | Playing | Results

text \<open>The identifier \<open>note_<n>\<close> of a note is modelled by the number \<open>n\<close>.\<close>

record Note =
  note_id :: nat
  note_lane :: nat
  note_type :: NoteType
  spawnTime :: real
  hitTime :: real
  note_y :: real
  hit :: bool
  missed :: bool
  rating :: "HitRating option"

record Lane =
  lane_x :: real
  lane_width :: real
  lane_key :: string
  lane_color :: string
  glowColor :: string
  pressed :: bool
  hitEffect :: real

record Particle =
  p_x :: real
  p_y :: real
  p_vx :: real
  p_vy :: real
  p_life :: real
  p_maxLife :: real
  p_color :: string
  p_size :: real

record FloatingText =
  ft_x :: real
  ft_y :: real
  ft_text :: string
  ft_color :: string
  ft_life :: real
  ft_maxLife :: real
  ft_scale :: real

record ComboState =
  combo_current :: int
  combo_max :: int
  multiplier :: real

record ScoreState =
  score_current :: int
  score_display :: real
  perfectCount :: int
  greatCount :: int
  goodCount :: int
  missCount :: int

record UpgradeDef =
  upgrade_id :: string
  upgrade_name :: string
  description :: string
  baseCost :: real
  maxLevel :: nat
  effect :: real

record Upgrade = UpgradeDef +
  currentLevel :: nat

record NotePattern =
  pattern_time :: real
  pattern_lanes :: "nat list"
  pattern_type :: NoteType

record LevelConfig =
  bpm :: real
  duration :: real
  difficulty :: real
  patterns :: "NotePattern list"

record GameConfig =
  laneCount :: nat
  hitLineY :: real
  baseHitWindow :: real
  baseNoteSpeed :: real
  perfectWindow :: real
  greatWindow :: real
  goodWindow :: real

text \<open>
  A \<open>Map\<close> is the list of its entries in insertion order; \<open>mapGet\<close> and \<open>mapSet\<close> are
  its \<open>get\<close> and \<open>set\<close> for keys that are compared by value.
\<close>

definition mapGet :: "('k \<times> 'v) list \<Rightarrow> 'k \<Rightarrow> 'v option" where
  "mapGet m k = map_of m k"

fun mapSet :: "'k \<Rightarrow> 'v \<Rightarrow> ('k \<times> 'v) list \<Rightarrow> ('k \<times> 'v) list" where
  "mapSet k v [] = [(k, v)]"
| "mapSet k v ((k', v') # m) = (if k' = k then (k', v) # m else (k', v') # mapSet k v m)"

record GameState =
  screen :: Screen
  currentLevelNum :: int
  highestLevel :: int
  gameTime :: real
  activeNotes :: "Note list"
  lanes :: "Lane list"
  combo :: ComboState
  score :: ScoreState
  particles :: "Particle list"
  floatingTexts :: "FloatingText list"
  totalPoints :: int
  upgrades :: "Upgrade list"
  isPaused :: bool
  hitWindow :: real
  noteSpeed :: real
  beatPulse :: real
  levelHighScores :: "(int \<times> int) list"
  levelMaxCombos :: "(int \<times> int) list"
  keybinds :: "string list"
  rebindingLane :: "nat option"

definition DEFAULT_CONFIG :: GameConfig where
  "DEFAULT_CONFIG =
     \<lparr>laneCount = 4, hitLineY = 85 / 100, baseHitWindow = 150, baseNoteSpeed = 400,
      perfectWindow = 40, greatWindow = 80, goodWindow = 120\<rparr>"

definition LANE_COLORS :: "(string \<times> string) list" where
  "LANE_COLORS =
     [(''#ff00ff'', ''#ff00ff44''), (''#00ffff'', ''#00ffff44''),
      (''#ffff00'', ''#ffff0044''), (''#00ff00'', ''#00ff0044'')]"

definition LANE_KEYS :: "string list" where
  "LANE_KEYS = [''D'', ''F'', ''J'', ''K'']"

definition UPGRADE_DEFINITIONS :: "UpgradeDef list" where
  "UPGRADE_DEFINITIONS =
     [\<lparr>upgrade_id = ''timing'', upgrade_name = ''Better Timing'',
       description = ''+10% hit window'', baseCost = 100, maxLevel = 10, effect = 1 / 10\<rparr>,
      \<lparr>upgrade_id = ''multiplier'', upgrade_name = ''Score Boost'',
       description = ''+15% base score'', baseCost = 150, maxLevel = 10, effect = 15 / 100\<rparr>,
      \<lparr>upgrade_id = ''combo_shield'', upgrade_name = ''Combo Shield'',
       description = ''+8% save chance'', baseCost = 200, maxLevel = 10, effect = 8 / 100\<rparr>,
      \<lparr>upgrade_id = ''perfect_bonus'', upgrade_name = ''Perfect Master'',
       description = ''+20% perfect pts'', baseCost = 250, maxLevel = 10, effect = 2 / 10\<rparr>,
      \<lparr>upgrade_id = ''slow_notes'', upgrade_name = ''Focus Mode'',
       description = ''-5% note speed'', baseCost = 120, maxLevel = 10, effect = 5 / 100\<rparr>]"

section \<open>Level generation (levels.ts)\<close>

text \<open>
  The second lane of a double note:
  \<open>do { secondLane = Math.floor(rng.next() * 4) } while (secondLane === lanes[0])\<close>.
  Nothing bounds the number of draws, so the loop is a partial function: \<open>None\<close>
  is the run that never leaves the loop. The result is the lane and the seed left
  in the generator.
\<close>

partial_function (option) secondLane :: "nat \<Rightarrow> int \<Rightarrow> (nat \<times> int) option" where
  "secondLane lane0 seed =
     (let (r, seed') = SeededRandom_next seed; l = nat \<lfloor>r * 4\<rfloor>
      in if l = lane0 then secondLane lane0 seed' else Some (l, seed'))"

declare secondLane.simps [code]

text \<open>
  The main-beat draw of \<open>generatePatterns\<close>: with probability \<open>baseNoteChance\<close> one
  lane, and with probability \<open>doubleChance\<close> a second, different one. The result is
  the lanes drawn (empty when the beat has no note) and the seed left.
\<close>

definition mainBeat :: "real \<Rightarrow> real \<Rightarrow> int \<Rightarrow> (nat list \<times> int) option" where
  "mainBeat baseNoteChance doubleChance seed =
     (let (r1, s1) = SeededRandom_next seed
      in if r1 < baseNoteChance
         then (let (r2, s2) = SeededRandom_next s1;
                   lane0 = nat \<lfloor>r2 * 4\<rfloor>;
                   (r3, s3) = SeededRandom_next s2
               in if r3 < doubleChance
                  then (case secondLane lane0 s3 of
                          None \<Rightarrow> None
                        | Some (l, s4) \<Rightarrow> Some ([lane0, l], s4))
                  else Some ([lane0], s3))
         else Some ([], s1))"

text \<open>The off-beat note of one beat: the patterns pushed and the seed left.\<close>

definition offBeat :: "real \<Rightarrow> real \<Rightarrow> real \<Rightarrow> real \<Rightarrow> int \<Rightarrow> NotePattern list \<times> int" where
  "offBeat offBeatChance time beatDuration dur seed =
     (let (r1, s1) = SeededRandom_next seed
      in if r1 < offBeatChance
         then (let offBeatTime = time + (5 / 10 * beatDuration) / dur
               in if offBeatTime < 95 / 100
                  then (let (r2, s2) = SeededRandom_next s1
                        in ([\<lparr>pattern_time = offBeatTime, pattern_lanes = [nat \<lfloor>r2 * 4\<rfloor>],
                              pattern_type = Normal\<rparr>], s2))
                  else ([], s1))
         else ([], s1))"

text \<open>The triplet loop \<open>for (t = 1; t <= 2; t++)\<close>, counted down by the number of rounds left.\<close>

fun tripletLoop :: "nat \<Rightarrow> real \<Rightarrow> real \<Rightarrow> real \<Rightarrow> real \<Rightarrow> int \<Rightarrow> NotePattern list \<times> int" where
  "tripletLoop 0 t time beatDuration dur seed = ([], seed)"
| "tripletLoop (Suc k) t time beatDuration dur seed =
     (let tripletTime = time + (t * beatDuration / 3) / dur
      in if tripletTime < 95 / 100
         then (let (r, s1) = SeededRandom_next seed;
                   (ps, s2) = tripletLoop k (t + 1) time beatDuration dur s1
               in (\<lparr>pattern_time = tripletTime, pattern_lanes = [nat \<lfloor>r * 4\<rfloor>],
                     pattern_type = Normal\<rparr> # ps, s2))
         else tripletLoop k (t + 1) time beatDuration dur seed)"

definition triplets :: "real \<Rightarrow> real \<Rightarrow> real \<Rightarrow> real \<Rightarrow> int \<Rightarrow> NotePattern list \<times> int" where
  "triplets diff time beatDuration dur seed =
     (if 2 < diff
      then (let (r, s1) = SeededRandom_next seed
            in if r < 1 / 10 then tripletLoop 2 1 time beatDuration dur s1 else ([], s1))
      else ([], seed))"

text \<open>
  The loop over the beats, \<open>for (beat = 0; beat < totalBeats; beat++)\<close>: the patterns
  pushed so far are \<open>acc\<close>, in push order.
\<close>

function beatLoop ::
  "int \<Rightarrow> int \<Rightarrow> real \<Rightarrow> real \<Rightarrow> real \<Rightarrow> int \<Rightarrow> NotePattern list \<Rightarrow> NotePattern list option" where
  "beatLoop beat totalBeats beatDuration dur diff seed acc =
     (if beat < totalBeats
      then (let time = (real_of_int beat * beatDuration) / dur
            in if beat < 4 then beatLoop (beat + 1) totalBeats beatDuration dur diff seed acc
               else (case mainBeat (5 / 10 + min (diff * (8 / 100)) (4 / 10))
                            (min (5 / 100 + diff * (5 / 100)) (4 / 10)) seed of
                       None \<Rightarrow> None
                     | Some (ls, s1) \<Rightarrow>
                         (let acc1 = (if ls = [] then acc
                                      else acc @ [\<lparr>pattern_time = time, pattern_lanes = ls,
                                                   pattern_type = Normal\<rparr>]);
                              (ps2, s2) = offBeat (min (diff * (8 / 100)) (5 / 10)) time beatDuration dur s1;
                              (ps3, s3) = triplets diff time beatDuration dur s2
                          in beatLoop (beat + 1) totalBeats beatDuration dur diff s3 (acc1 @ ps2 @ ps3))))
      else Some acc)"
  by pat_completeness auto
termination
  by (relation "measure (\<lambda>(beat, totalBeats, _). nat (totalBeats - beat))") auto

declare beatLoop.simps [simp del]

text \<open>
  \<open>generatePatterns\<close>. A zero \<open>bpm\<close> or \<open>duration\<close> makes the source divide by zero;
  the reals have no infinity, and the model gives \<open>None\<close> there. The final sort is
  by time and stable, as \<open>Array.prototype.sort\<close> is.
\<close>

definition generatePatterns :: "real \<Rightarrow> real \<Rightarrow> real \<Rightarrow> int \<Rightarrow> NotePattern list option" where
  "generatePatterns bpm' dur diff seed =
     (if bpm' = 0 \<or> dur = 0 then None
      else (let beatDuration = 60 / bpm';
                totalBeats = \<lfloor>dur / beatDuration\<rfloor>
            in map_option (sort_key pattern_time)
                 (beatLoop 0 totalBeats beatDuration dur diff seed [])))"

definition generateLevel :: "int \<Rightarrow> LevelConfig option" where
  "generateLevel levelNum =
     (let seed = fl (levelNum * 12345);
          baseBpm = 80;
          bpmIncrease = min (real_of_int levelNum * 5) 120;
          bpm' = baseBpm + bpmIncrease;
          dur = min (20 + real_of_int levelNum * 2) 60;
          diff = 1 + (real_of_int levelNum - 1) * (15 / 100)
      in map_option (\<lambda>ps. \<lparr>bpm = bpm', duration = dur, difficulty = diff, patterns = ps\<rparr>)
           (generatePatterns bpm' dur diff seed))"


section \<open>The engine (engine.ts)\<close>

text \<open>
  The engine object: the game state \<open>this.state\<close> with the private fields beside it.
  The canvas is its two dimensions. The module-level \<open>noteIdCounter\<close> is a field, and
  so is the source of \<open>Math.random()\<close>: the stream \<open>mathRandom\<close> of the values it
  will return and the number \<open>randomCalls\<close> of values taken so far.

  A function that can fail to return a state has an \<open>option\<close> result. \<open>None\<close> stands
  for a \<open>TypeError\<close> (a property of \<open>undefined\<close> or \<open>null\<close>), for a loop that does not
  end, and for a division by zero, whose result the reals do not have.
  \<open>saveProgress\<close> writes to the browser's storage only and is left out.
\<close>

record Engine = GameState +
  config :: GameConfig
  canvasWidth :: real
  canvasHeight :: real
  currentLevelConfig :: "LevelConfig option"
  nextBeatTime :: real
  levelRng :: "int option"
  noteIdCounter :: nat
  mathRandom :: "nat \<Rightarrow> real"
  randomCalls :: nat

definition Math_random :: "Engine \<Rightarrow> real \<times> Engine" where
  "Math_random e = (mathRandom e (randomCalls e), e\<lparr>randomCalls := Suc (randomCalls e)\<rparr>)"

text \<open>The constructor, up to its call of \<open>loadProgress\<close>.\<close>

definition GameEngine :: "real \<Rightarrow> real \<Rightarrow> (nat \<Rightarrow> real) \<Rightarrow> Engine" where
  "GameEngine width height rnd =
     (let laneWidth = 80;
          totalWidth = laneWidth * real (laneCount DEFAULT_CONFIG);
          startX = (width - totalWidth) / 2
      in \<lparr>screen = Menu, currentLevelNum = 1, highestLevel = 1, gameTime = 0, activeNotes = [],
          lanes = map (\<lambda>i. \<lparr>lane_x = startX + real i * laneWidth, lane_width = laneWidth,
                              lane_key = LANE_KEYS ! i, lane_color = fst (LANE_COLORS ! i),
                              glowColor = snd (LANE_COLORS ! i), pressed = False, hitEffect = 0\<rparr>)
                    [0 ..< laneCount DEFAULT_CONFIG],
          combo = \<lparr>combo_current = 0, combo_max = 0, multiplier = 1\<rparr>,
          score = \<lparr>score_current = 0, score_display = 0, perfectCount = 0, greatCount = 0,
                   goodCount = 0, missCount = 0\<rparr>,
          particles = [], floatingTexts = [], totalPoints = 0,
          upgrades = map (\<lambda>d. UpgradeDef.extend d \<lparr>currentLevel = 0\<rparr>) UPGRADE_DEFINITIONS,
          isPaused = False, hitWindow = baseHitWindow DEFAULT_CONFIG,
          noteSpeed = baseNoteSpeed DEFAULT_CONFIG, beatPulse = 0,
          levelHighScores = [], levelMaxCombos = [],
          keybinds = LANE_KEYS, rebindingLane = None,
          config = DEFAULT_CONFIG, canvasWidth = width, canvasHeight = height,
          currentLevelConfig = None, nextBeatTime = 0, levelRng = None, noteIdCounter = 0,
          mathRandom = rnd, randomCalls = 0\<rparr>)"


definition addFloatingText :: "real \<Rightarrow> real \<Rightarrow> string \<Rightarrow> string \<Rightarrow> real \<Rightarrow> Engine \<Rightarrow> Engine" where
  "addFloatingText x y text color scale e =
     e\<lparr>floatingTexts := floatingTexts e @
          [\<lparr>ft_x = x, ft_y = y, ft_text = text, ft_color = color, ft_life = 1, ft_maxLife = 1,
            ft_scale = scale\<rparr>]\<rparr>"

text \<open>\<open>spawnHitParticles\<close>: \<open>k\<close> rounds of the loop are left, \<open>i\<close> is the loop variable.\<close>

fun particleLoop :: "nat \<Rightarrow> nat \<Rightarrow> real \<Rightarrow> real \<Rightarrow> string \<Rightarrow> Engine \<Rightarrow> Engine" where
  "particleLoop 0 i x y color e = e"
| "particleLoop (Suc k) i x y color e =
     (let (r1, e1) = Math_random e;
          angle = (pi * 2 * real i) / 12 + r1 * (3 / 10);
          (r2, e2) = Math_random e1;
          speed = 150 + r2 * 100;
          (r3, e3) = Math_random e2;
          (r4, e4) = Math_random e3;
          (r5, e5) = Math_random e4
      in particleLoop k (Suc i) x y color
           (e5\<lparr>particles := particles e5 @
                 [\<lparr>p_x = x, p_y = y, p_vx = cos angle * speed, p_vy = sin angle * speed - 50,
                   p_life = 5 / 10 + r3 * (3 / 10), p_maxLife = 5 / 10 + r4 * (3 / 10),
                   p_color = color, p_size = 3 + r5 * 4\<rparr>]\<rparr>))"

definition spawnHitParticles :: "real \<Rightarrow> real \<Rightarrow> string \<Rightarrow> Engine \<Rightarrow> Engine" where
  "spawnHitParticles x y color e = particleLoop 12 0 x y color e"

text \<open>The decimal digits of a number, for the floating text \<open>+<points>\<close>.\<close>

function digits :: "nat \<Rightarrow> string" where
  "digits n = (if n < 10 then [char_of (48 + n)] else digits (n div 10) @ [char_of (48 + n mod 10)])"
  by pat_completeness auto
termination
  by (relation "measure id") auto

declare digits.simps [simp del]

definition show_int :: "int \<Rightarrow> string" where
  "show_int k = (if k < 0 then CHR ''-'' # digits (nat (- k)) else digits (nat k))"

text \<open>The local \<open>scoreMultiplier\<close> of \<open>hitNote\<close>, for a hit of the given rating.\<close>

definition scoreMultiplier :: "HitRating \<Rightarrow> Engine \<Rightarrow> real" where
  "scoreMultiplier rating' e =
     1 + (case find (\<lambda>u. upgrade_id u = ''multiplier'') (upgrades e) of
            None \<Rightarrow> 0 | Some u \<Rightarrow> real (currentLevel u) * effect u)
       + (if rating' = Perfect
          then (case find (\<lambda>u. upgrade_id u = ''perfect_bonus'') (upgrades e) of
                  None \<Rightarrow> 0 | Some u \<Rightarrow> real (currentLevel u) * effect u)
          else 0)"

text \<open>
  \<open>hitNote(note, distance)\<close>. The note is the object at index \<open>i\<close> of \<open>state.notes\<close>.
  The lane of the note is looked up after the score is written; a lane index outside
  \<open>state.lanes\<close> is the \<open>TypeError\<close> of \<open>lane.hitEffect = 1\<close>.
\<close>

definition hitNote :: "nat \<Rightarrow> real \<Rightarrow> Engine \<Rightarrow> Engine option" where
  "hitNote i distance e =
     (let note = activeNotes e ! i;
          cfg = config e;
          sc = score e;
          (rating', baseScore, sc1) =
            (if distance \<le> perfectWindow cfg
             then (Perfect, 100, sc\<lparr>perfectCount := perfectCount sc + 1\<rparr>)
             else if distance \<le> greatWindow cfg
             then (Great, 75, sc\<lparr>greatCount := greatCount sc + 1\<rparr>)
             else (Good, 50, sc\<lparr>goodCount := goodCount sc + 1\<rparr>));
          note' = note\<lparr>hit := True, rating := Some rating'\<rparr>;
          cur = combo_current (combo e) + 1;
          combo' = \<lparr>combo_current = cur, combo_max = max (combo_max (combo e)) cur,
                    multiplier = 1 + real_of_int (cur div 10) * (1 / 10)\<rparr>;
          finalScore = \<lfloor>baseScore * multiplier combo' * scoreMultiplier rating' e\<rfloor>;
          e1 = e\<lparr>activeNotes := (activeNotes e)[i := note'], combo := combo',
                 score := sc1\<lparr>score_current := score_current sc1 + finalScore\<rparr>\<rparr>
      in if note_lane note < length (lanes e1)
         then (let lane = lanes e1 ! note_lane note;
                   e2 = e1\<lparr>lanes := (lanes e1)[note_lane note := lane\<lparr>hitEffect := 1\<rparr>],
                          beatPulse := min 1 (beatPulse e1 + 3 / 10)\<rparr>;
                   e3 = spawnHitParticles (lane_x lane + lane_width lane / 2)
                          (canvasHeight e2 * hitLineY cfg) (lane_color lane) e2;
                   e4 = addFloatingText (lane_x lane + lane_width lane / 2)
                          (canvasHeight e3 * hitLineY cfg - 40)
                          (case rating' of Perfect \<Rightarrow> ''PERFECT'' | Great \<Rightarrow> ''GREAT''
                             | Good \<Rightarrow> ''GOOD'' | Miss \<Rightarrow> ''MISS'')
                          (case rating' of Perfect \<Rightarrow> ''#ffff00'' | Great \<Rightarrow> ''#00ffff''
                             | Good \<Rightarrow> ''#00ff00'' | Miss \<Rightarrow> ''#ff0044'')
                          (if rating' = Perfect then 3 / 2 else 1) e3
               in Some (addFloatingText (lane_x lane + lane_width lane / 2)
                          (canvasHeight e4 * hitLineY cfg - 70)
                          (CHR ''+'' # show_int finalScore) ''#ffffff'' (8 / 10) e4))
         else None)"

text \<open>
  The search loop of \<open>tryHitNote\<close>: \<open>i\<close> is the index of the head of the list in
  \<open>state.notes\<close>; \<open>closest\<close> is \<open>None\<close> while \<open>closestNote\<close> is \<open>null\<close> (and
  \<open>closestDist\<close> is \<open>Infinity\<close>), and the index and distance of the closest note after.
\<close>

fun closestLoop ::
  "Note list \<Rightarrow> nat \<Rightarrow> nat \<Rightarrow> real \<Rightarrow> real \<Rightarrow> (nat \<times> real) option \<Rightarrow> (nat \<times> real) option" where
  "closestLoop [] i laneIndex hitLine effectiveWindow closest = closest"
| "closestLoop (note # rest) i laneIndex hitLine effectiveWindow closest =
     (if note_lane note = laneIndex \<and> \<not> hit note \<and> \<not> missed note
      then (let dist = \<bar>note_y note - hitLine\<bar>
            in if (case closest of None \<Rightarrow> True | Some (_, closestDist) \<Rightarrow> dist < closestDist)
                  \<and> dist < effectiveWindow
               then closestLoop rest (Suc i) laneIndex hitLine effectiveWindow (Some (i, dist))
               else closestLoop rest (Suc i) laneIndex hitLine effectiveWindow closest)
      else closestLoop rest (Suc i) laneIndex hitLine effectiveWindow closest)"

definition effectiveWindow :: "Engine \<Rightarrow> real" where
  "effectiveWindow e =
     baseHitWindow (config e) *
       (case find (\<lambda>u. upgrade_id u = ''timing'') (upgrades e) of
          None \<Rightarrow> 1 | Some u \<Rightarrow> 1 + real (currentLevel u) * effect u)"

definition tryHitNote :: "nat \<Rightarrow> Engine \<Rightarrow> Engine option" where
  "tryHitNote laneIndex e =
     (let hitLine = canvasHeight e * hitLineY (config e)
      in case closestLoop (activeNotes e) 0 laneIndex hitLine (effectiveWindow e) None of
           Some (i, closestDist) \<Rightarrow> hitNote i closestDist e
         | None \<Rightarrow>
             if laneIndex < length (lanes e)
             then Some (e\<lparr>lanes := (lanes e)[laneIndex := (lanes e ! laneIndex)\<lparr>hitEffect := 3 / 10\<rparr>]\<rparr>)
             else None)"

definition shieldChance :: "Engine \<Rightarrow> real" where
  "shieldChance e =
     (case find (\<lambda>u. upgrade_id u = ''combo_shield'') (upgrades e) of
        None \<Rightarrow> 0 | Some u \<Rightarrow> real (currentLevel u) * effect u)"

text \<open>\<open>missNote(note)\<close>, the note being the object at index \<open>i\<close> of \<open>state.notes\<close>.\<close>

definition missNote :: "nat \<Rightarrow> Engine \<Rightarrow> Engine option" where
  "missNote i e =
     (let note = activeNotes e ! i;
          e1 = e\<lparr>activeNotes := (activeNotes e)[i := note\<lparr>missed := True, rating := Some Miss\<rparr>],
                 score := (score e)\<lparr>missCount := missCount (score e) + 1\<rparr>\<rparr>;
          (r, e2) = Math_random e1;
          e3 = (if r < shieldChance e1
                then addFloatingText (canvasWidth e2 / 2) (canvasHeight e2 / 2)
                       ''COMBO SAVED!'' ''#aa00ff'' (3 / 2) e2
                else e2\<lparr>combo := (combo e2)\<lparr>combo_current := 0, multiplier := 1\<rparr>\<rparr>)
      in if note_lane note < length (lanes e3)
         then (let lane = lanes e3 ! note_lane note
               in Some (addFloatingText (lane_x lane + lane_width lane / 2)
                          (canvasHeight e3 * hitLineY (config e3) - 40) ''MISS'' ''#ff0044'' 1 e3))
         else None)"

definition startLevel :: "int \<Rightarrow> Engine \<Rightarrow> Engine option" where
  "startLevel levelNum e =
     (case generateLevel levelNum of
        None \<Rightarrow> None
      | Some cfg \<Rightarrow>
          Some (e\<lparr>currentLevelConfig := Some cfg, levelRng := Some (fl (levelNum * 12345)),
                  nextBeatTime := 0, currentLevelNum := levelNum, screen := Playing,
                  gameTime := - 2, activeNotes := [],
                  combo := \<lparr>combo_current = 0, combo_max = 0, multiplier = 1\<rparr>,
                  score := \<lparr>score_current = 0, score_display = 0, perfectCount = 0,
                            greatCount = 0, goodCount = 0, missCount = 0\<rparr>,
                  isPaused := False\<rparr>))"

definition endLevel :: "Engine \<Rightarrow> Engine" where
  "endLevel e =
     (let levelNum = currentLevelNum e;
          currentHigh = (case mapGet (levelHighScores e) levelNum of None \<Rightarrow> 0 | Some v \<Rightarrow> v);
          e1 = (if score_current (score e) > currentHigh
                then e\<lparr>levelHighScores := mapSet levelNum (score_current (score e)) (levelHighScores e)\<rparr>
                else e);
          currentMaxCombo = (case mapGet (levelMaxCombos e1) levelNum of None \<Rightarrow> 0 | Some v \<Rightarrow> v);
          e2 = (if combo_max (combo e1) > currentMaxCombo
                then e1\<lparr>levelMaxCombos := mapSet levelNum (combo_max (combo e1)) (levelMaxCombos e1)\<rparr>
                else e1);
          unlockThreshold = 1000 * levelNum;
          e3 = (if levelNum \<ge> highestLevel e2 \<and> score_current (score e2) \<ge> unlockThreshold
                then e2\<lparr>highestLevel := levelNum + 1\<rparr>
                else e2);
          pointsEarned = score_current (score e3) div 10
      in e3\<lparr>totalPoints := totalPoints e3 + pointsEarned, screen := Results,
            currentLevelConfig := None\<rparr>)"


subsection \<open>The gameplay tick\<close>

text \<open>A new note object pushed on \<open>state.notes\<close>, with the next identifier.\<close>

definition pushNote :: "nat \<Rightarrow> real \<Rightarrow> real \<Rightarrow> Engine \<Rightarrow> Engine" where
  "pushNote laneIndex spawn hitT e =
     e\<lparr>activeNotes := activeNotes e @
          [\<lparr>note_id = noteIdCounter e, note_lane = laneIndex, note_type = Normal,
            spawnTime = spawn, hitTime = hitT, note_y = - 30, hit = False, missed = False,
            rating = None\<rparr>],
       noteIdCounter := Suc (noteIdCounter e)\<rparr>"

text \<open>The main-beat draw of the live spawner (the lanes drawn, and the seed left).\<close>

definition liveMainBeat :: "real \<Rightarrow> real \<Rightarrow> int \<Rightarrow> (nat list \<times> int) option" where
  "liveMainBeat noteChance doubleChance seed =
     (let (r1, s1) = SeededRandom_next seed
      in if r1 < noteChance
         then (let (r2, s2) = SeededRandom_next s1;
                   lane0 = nat \<lfloor>r2 * 4\<rfloor>;
                   (r3, s3) = SeededRandom_next s2
               in if r3 < doubleChance
                  then (case secondLane lane0 s3 of
                          None \<Rightarrow> None
                        | Some (l, s4) \<Rightarrow> Some ([lane0, l], s4))
                  else Some ([lane0], s3))
         else Some ([], s1))"

text \<open>
  One round of the spawning loop of \<open>updateGameplay\<close>: the beat at \<open>nextBeatTime\<close>.
  \<open>levelRng\<close> holds the seed of the live generator.
\<close>

definition spawnBeat :: "real \<Rightarrow> real \<Rightarrow> real \<Rightarrow> Engine \<Rightarrow> Engine option" where
  "spawnBeat beatInterval travelTime diff e =
     (case levelRng e of
        None \<Rightarrow> None
      | Some seed \<Rightarrow>
          if nextBeatTime e > 0
          then (let noteChance = 5 / 10 + min (diff * (8 / 100)) (4 / 10);
                    doubleChance = min (5 / 100 + diff * (5 / 100)) (4 / 10);
                    offBeatChance = min (diff * (8 / 100)) (5 / 10)
                in case liveMainBeat noteChance doubleChance seed of
                     None \<Rightarrow> None
                   | Some (ls, s1) \<Rightarrow>
                       (let e1 = fold (\<lambda>laneIndex.
                                   pushNote laneIndex (nextBeatTime e - travelTime) (nextBeatTime e))
                                 ls e;
                            (r1, s2) = SeededRandom_next s1
                        in if r1 < offBeatChance
                           then (let offBeatTime = nextBeatTime e + beatInterval / 2;
                                     (r2, s3) = SeededRandom_next s2;
                                     e2 = pushNote (nat \<lfloor>r2 * 4\<rfloor>) (offBeatTime - travelTime)
                                            offBeatTime e1
                                 in Some (e2\<lparr>levelRng := Some s3,
                                             nextBeatTime := nextBeatTime e + beatInterval\<rparr>))
                           else Some (e1\<lparr>levelRng := Some s2,
                                         nextBeatTime := nextBeatTime e + beatInterval\<rparr>)))
          else Some (e\<lparr>nextBeatTime := nextBeatTime e + beatInterval\<rparr>))"

text \<open>
  \<open>while (this.nextBeatTime < this.state.gameTime + travelTime + beatInterval)\<close>; the
  bound does not change during the loop.
\<close>

partial_function (option) spawnLoop :: "real \<Rightarrow> real \<Rightarrow> real \<Rightarrow> real \<Rightarrow> Engine \<Rightarrow> Engine option" where
  "spawnLoop bound beatInterval travelTime diff e =
     (if nextBeatTime e < bound
      then Option.bind (spawnBeat beatInterval travelTime diff e)
             (spawnLoop bound beatInterval travelTime diff)
      else Some e)"

declare spawnLoop.simps [code]

text \<open>
  The loop over \<open>state.notes\<close> that moves the unresolved notes and judges the misses:
  \<open>k\<close> notes are left, starting at index \<open>i\<close>.
\<close>

fun moveLoop :: "nat \<Rightarrow> nat \<Rightarrow> real \<Rightarrow> real \<Rightarrow> Engine \<Rightarrow> Engine option" where
  "moveLoop 0 i effectiveSpeed hitLine e = Some e"
| "moveLoop (Suc k) i effectiveSpeed hitLine e =
     (let note = activeNotes e ! i
      in if \<not> hit note \<and> \<not> missed note
         then (let timeSinceSpawn = gameTime e - spawnTime note;
                   y' = - 30 + timeSinceSpawn * effectiveSpeed;
                   e1 = e\<lparr>activeNotes := (activeNotes e)[i := note\<lparr>note_y := y'\<rparr>]\<rparr>
               in if y' > hitLine + 50
                  then (case missNote i e1 of
                          None \<Rightarrow> None
                        | Some e2 \<Rightarrow> moveLoop k (Suc i) effectiveSpeed hitLine e2)
                  else moveLoop k (Suc i) effectiveSpeed hitLine e1)
         else moveLoop k (Suc i) effectiveSpeed hitLine e)"

text \<open>The remainder operator \<open>%\<close> on numbers: the quotient is truncated towards zero.\<close>

definition js_rem :: "real \<Rightarrow> real \<Rightarrow> real" where
  "js_rem a b = a - b * real_of_int (if a / b < 0 then \<lceil>a / b\<rceil> else \<lfloor>a / b\<rfloor>)"

definition effectiveSpeed :: "Engine \<Rightarrow> real" where
  "effectiveSpeed e =
     baseNoteSpeed (config e) *
       (case find (\<lambda>u. upgrade_id u = ''slow_notes'') (upgrades e) of
          None \<Rightarrow> 1 | Some u \<Rightarrow> 1 - real (currentLevel u) * effect u)"

text \<open>
  \<open>updateGameplay\<close> in two parts. The first advances the time, spawns the notes of
  the beats that are due and moves and judges the notes.
\<close>

definition spawnAndMove :: "LevelConfig \<Rightarrow> real \<Rightarrow> Engine \<Rightarrow> Engine option" where
  "spawnAndMove levelConfig deltaTime e =
     (let e1 = e\<lparr>gameTime := gameTime e + deltaTime\<rparr>
      in if bpm levelConfig = 0 \<or> effectiveSpeed e1 = 0 then None
         else (let beatInterval = 60 / bpm levelConfig;
                   hitLine = canvasHeight e1 * hitLineY (config e1);
                   travelTime = hitLine / effectiveSpeed e1
               in case spawnLoop (gameTime e1 + travelTime + beatInterval) beatInterval
                         travelTime (difficulty levelConfig) e1 of
                    None \<Rightarrow> None
                  | Some e2 \<Rightarrow>
                      moveLoop (length (activeNotes e2)) 0 (effectiveSpeed e1) hitLine e2))"

text \<open>The second cleans up the notes, pulses the beat and ends the level.\<close>

definition finishTick :: "LevelConfig \<Rightarrow> Engine \<Rightarrow> Engine" where
  "finishTick levelConfig e3 =
     (let beatInterval = 60 / bpm levelConfig;
          e4 = e3\<lparr>activeNotes :=
                    filter (\<lambda>n. note_y n < canvasHeight e3 + 50) (activeNotes e3)\<rparr>;
          beatPhase = js_rem (gameTime e4) beatInterval / beatInterval;
          e5 = (if beatPhase < 1 / 10
                then e4\<lparr>beatPulse := max (beatPulse e4) (1 - beatPhase * 10)\<rparr>
                else e4)
      in if missCount (score e5) \<ge> 10 then endLevel e5 else e5)"

definition updateGameplay :: "real \<Rightarrow> Engine \<Rightarrow> Engine option" where
  "updateGameplay deltaTime e =
     (case (currentLevelConfig e, levelRng e) of
        (Some levelConfig, Some _) \<Rightarrow> map_option (finishTick levelConfig) (spawnAndMove levelConfig deltaTime e)
      | _ \<Rightarrow> Some e)"

subsection \<open>The tick\<close>

definition updateParticles :: "real \<Rightarrow> Engine \<Rightarrow> Engine" where
  "updateParticles deltaTime e =
     (let moved = map (\<lambda>p. p\<lparr>p_x := p_x p + p_vx p * deltaTime, p_y := p_y p + p_vy p * deltaTime,
                               p_vy := p_vy p + 200 * deltaTime, p_life := p_life p - deltaTime\<rparr>)
                    (particles e);
          alive = filter (\<lambda>p. \<not> p_life p \<le> 0) moved
      in e\<lparr>particles := drop (length alive - 200) alive\<rparr>)"

definition updateFloatingTexts :: "real \<Rightarrow> Engine \<Rightarrow> Engine" where
  "updateFloatingTexts deltaTime e =
     e\<lparr>floatingTexts :=
          filter (\<lambda>t. \<not> ft_life t \<le> 0)
            (map (\<lambda>t. t\<lparr>ft_y := ft_y t - 50 * deltaTime, ft_life := ft_life t - deltaTime\<rparr>)
               (floatingTexts e))\<rparr>"

definition updateDisplayScore :: "real \<Rightarrow> Engine \<Rightarrow> Engine" where
  "updateDisplayScore deltaTime e =
     (let sc = score e; diff = real_of_int (score_current sc) - score_display sc
      in if \<bar>diff\<bar> < 1
         then e\<lparr>score := sc\<lparr>score_display := real_of_int (score_current sc)\<rparr>\<rparr>
         else e\<lparr>score := sc\<lparr>score_display := score_display sc + diff * deltaTime * 5\<rparr>\<rparr>)"

definition update :: "real \<Rightarrow> Engine \<Rightarrow> Engine option" where
  "update deltaTime e =
     (case (if screen e = Playing \<and> \<not> isPaused e then updateGameplay deltaTime e else Some e) of
        None \<Rightarrow> None
      | Some e1 \<Rightarrow>
          (let e2 = updateDisplayScore deltaTime
                      (updateFloatingTexts deltaTime (updateParticles deltaTime e1));
               e3 = (if beatPulse e2 > 0
                     then e2\<lparr>beatPulse := max 0 (beatPulse e2 - deltaTime * 4)\<rparr>
                     else e2)
           in Some (e3\<lparr>lanes := map (\<lambda>lane. if hitEffect lane > 0
                                              then lane\<lparr>hitEffect := max 0 (hitEffect lane - deltaTime * 5)\<rparr>
                                              else lane)
                                    (lanes e3)\<rparr>)))"


text \<open>A run of frames: \<open>update\<close> called with each delta time in turn.\<close>

fun frames :: "real list \<Rightarrow> Engine \<Rightarrow> Engine option" where
  "frames [] e = Some e"
| "frames (deltaTime # rest) e =
     (case update deltaTime e of None \<Rightarrow> None | Some e' \<Rightarrow> frames rest e')"

section \<open>Loading the saved progress (engine.ts, \<open>loadProgress\<close>)\<close>

text \<open>
  \<open>JSON.parse\<close> returns a value of any shape, and \<open>loadProgress\<close> stores parts of it
  in the state unchecked. The values it handles are modelled as they are at run time.
  An object is the list of its own properties, looked up by name.
\<close>

datatype jsval =
    JUndefined
  | JNull
  | JBool bool
  | JNum real
  | JStr string
  | JArr "jsval list"
  | JObj "(string \<times> jsval) list"

text \<open>What \<open>localStorage.getItem\<close> does: it throws, returns \<open>null\<close>, or returns a text.\<close>

datatype stored = Unavailable | Absent | Stored string

text \<open>The fields of the state that \<open>loadProgress\<close> writes, holding run-time values.\<close>

record Progress =
  pr_totalPoints :: jsval
  pr_highestLevel :: jsval
  pr_upgradeLevels :: "(string \<times> jsval) list"
  pr_levelHighScores :: "(jsval \<times> jsval) list"
  pr_levelMaxCombos :: "(jsval \<times> jsval) list"
  pr_keybinds :: jsval
  pr_laneKeys :: "jsval list"

text \<open>These fields, read off a state of the engine.\<close>

definition progress_of :: "Engine \<Rightarrow> Progress" where
  "progress_of e =
     \<lparr>pr_totalPoints = JNum (real_of_int (totalPoints e)),
      pr_highestLevel = JNum (real_of_int (highestLevel e)),
      pr_upgradeLevels = map (\<lambda>u. (upgrade_id u, JNum (real (currentLevel u)))) (upgrades e),
      pr_levelHighScores =
        map (\<lambda>(k, v). (JNum (real_of_int k), JNum (real_of_int v))) (levelHighScores e),
      pr_levelMaxCombos =
        map (\<lambda>(k, v). (JNum (real_of_int k), JNum (real_of_int v))) (levelMaxCombos e),
      pr_keybinds = JArr (map JStr (keybinds e)),
      pr_laneKeys = map (\<lambda>l. JStr (lane_key l)) (lanes e)\<rparr>"

fun truthy :: "jsval \<Rightarrow> bool" where
  "truthy JUndefined = False"
| "truthy JNull = False"
| "truthy (JBool b) = b"
| "truthy (JNum x) = (x \<noteq> 0)"
| "truthy (JStr s) = (s \<noteq> [])"
| "truthy (JArr xs) = True"
| "truthy (JObj kvs) = True"

definition js_or :: "jsval \<Rightarrow> jsval \<Rightarrow> jsval" where
  "js_or a b = (if truthy a then a else b)"

text \<open>
  A property of \<open>undefined\<close> or \<open>null\<close> cannot be read: the attempt is a \<open>TypeError\<close>.
  \<open>js_get\<close> reads a named property of any other value (none of the names read here
  is inherited or is an index).
\<close>

fun nullish :: "jsval \<Rightarrow> bool" where
  "nullish JUndefined = True"
| "nullish JNull = True"
| "nullish v = False"

fun js_get :: "jsval \<Rightarrow> string \<Rightarrow> jsval" where
  "js_get (JObj kvs) name = (case map_of kvs name of None \<Rightarrow> JUndefined | Some v \<Rightarrow> v)"
| "js_get v name = JUndefined"

text \<open>\<open>v.length\<close> and \<open>v[i]\<close> of a value that is neither \<open>undefined\<close> nor \<open>null\<close>.\<close>

fun js_length :: "jsval \<Rightarrow> jsval" where
  "js_length (JArr xs) = JNum (real (length xs))"
| "js_length (JStr s) = JNum (real (length s))"
| "js_length (JObj kvs) = (case map_of kvs ''length'' of None \<Rightarrow> JUndefined | Some v \<Rightarrow> v)"
| "js_length v = JUndefined"

fun js_index :: "jsval \<Rightarrow> nat \<Rightarrow> jsval" where
  "js_index (JArr xs) i = (if i < length xs then xs ! i else JUndefined)"
| "js_index (JStr s) i = (if i < length s then JStr [s ! i] else JUndefined)"
| "js_index (JObj kvs) i = (case map_of kvs (digits i) of None \<Rightarrow> JUndefined | Some v \<Rightarrow> v)"
| "js_index v i = JUndefined"

text \<open>The items of an iterable; \<open>None\<close> is the \<open>TypeError\<close> of a value that is not iterable.\<close>

fun js_iter :: "jsval \<Rightarrow> jsval list option" where
  "js_iter (JArr xs) = Some xs"
| "js_iter (JStr s) = Some (map (\<lambda>c. JStr [c]) s)"
| "js_iter v = None"

text \<open>
  \<open>Map.prototype.set\<close> on values: a primitive key is compared by value, an array or
  object key is a new object and equals no earlier key.
\<close>

fun is_object :: "jsval \<Rightarrow> bool" where
  "is_object (JArr xs) = True"
| "is_object (JObj kvs) = True"
| "is_object v = False"

definition jsMapSet :: "jsval \<Rightarrow> jsval \<Rightarrow> (jsval \<times> jsval) list \<Rightarrow> (jsval \<times> jsval) list" where
  "jsMapSet k v m = (if is_object k then m @ [(k, v)] else mapSet k v m)"

text \<open>\<open>new Map(iterable)\<close>: every item must be an object, whose \<open>0\<close> and \<open>1\<close> are the entry.\<close>

fun mapEntries :: "jsval list \<Rightarrow> (jsval \<times> jsval) list \<Rightarrow> (jsval \<times> jsval) list option" where
  "mapEntries [] m = Some m"
| "mapEntries (item # rest) m =
     (if is_object item then mapEntries rest (jsMapSet (js_index item 0) (js_index item 1) m)
      else None)"

definition newMap :: "jsval \<Rightarrow> (jsval \<times> jsval) list option" where
  "newMap v = (case js_iter v of None \<Rightarrow> None | Some items \<Rightarrow> mapEntries items [])"

text \<open>\<open>upgrade.currentLevel = savedUpgrade.level\<close> for the first upgrade with that id.\<close>

fun setLevel :: "jsval \<Rightarrow> jsval \<Rightarrow> (string \<times> jsval) list \<Rightarrow> (string \<times> jsval) list" where
  "setLevel idv lv [] = []"
| "setLevel idv lv ((uid, cur) # rest) =
     (if JStr uid = idv then (uid, lv) # rest else (uid, cur) # setLevel idv lv rest)"

text \<open>
  The loop over the saved upgrades. The second component tells whether the loop
  threw; the state is then the one reached at the throw.
\<close>

fun loadUpgrades :: "jsval list \<Rightarrow> Progress \<Rightarrow> Progress \<times> bool" where
  "loadUpgrades [] s = (s, False)"
| "loadUpgrades (savedUpgrade # rest) s =
     (if nullish savedUpgrade then (s, True)
      else (case find (\<lambda>(uid, cur). JStr uid = js_get savedUpgrade ''id'') (pr_upgradeLevels s) of
              None \<Rightarrow> loadUpgrades rest s
            | Some upgrade \<Rightarrow>
                loadUpgrades rest
                  (s\<lparr>pr_upgradeLevels :=
                       setLevel (js_get savedUpgrade ''id'') (js_get savedUpgrade ''level'')
                         (pr_upgradeLevels s)\<rparr>)))"

text \<open>The key bindings, the last step; nothing in it throws.\<close>

definition loadKeybinds :: "jsval \<Rightarrow> nat \<Rightarrow> Progress \<Rightarrow> Progress" where
  "loadKeybinds kb laneCount' s =
     (if truthy kb \<and> js_length kb = JNum (real laneCount')
      then s\<lparr>pr_keybinds := kb,
             pr_laneKeys := map (\<lambda>i. js_index kb i) [0 ..< length (pr_laneKeys s)]\<rparr>
      else s)"

text \<open>
  \<open>loadProgress\<close>, with \<open>JSON.parse\<close> as the parameter \<open>parse\<close> (\<open>None\<close> is its
  \<open>SyntaxError\<close>). The body runs inside \<open>try\<close>, and the \<open>catch\<close> only logs: where a
  step throws, the result is the state reached so far.
\<close>

definition loadProgress :: "(string \<Rightarrow> jsval option) \<Rightarrow> nat \<Rightarrow> stored \<Rightarrow> Progress \<Rightarrow> Progress" where
  "loadProgress parse laneCount' saved s =
     (case saved of
        Unavailable \<Rightarrow> s
      | Absent \<Rightarrow> s
      | Stored txt \<Rightarrow>
          if txt = [] then s
          else (case parse txt of
                  None \<Rightarrow> s
                | Some data \<Rightarrow>
                    if nullish data then s
                    else (let s1 = s\<lparr>pr_totalPoints := js_or (js_get data ''totalPoints'') (JNum 0)\<rparr>;
                              s2 = s1\<lparr>pr_highestLevel := js_or (js_get data ''highestLevel'') (JNum 1)\<rparr>
                          in case js_iter (js_or (js_get data ''upgrades'') (JArr [])) of
                               None \<Rightarrow> s2
                             | Some items \<Rightarrow>
                                 (case loadUpgrades items s2 of
                                    (s3, True) \<Rightarrow> s3
                                  | (s3, False) \<Rightarrow>
                                      (case (if truthy (js_get data ''levelHighScores'')
                                             then newMap (js_get data ''levelHighScores'')
                                             else Some (pr_levelHighScores s3)) of
                                         None \<Rightarrow> s3
                                       | Some m1 \<Rightarrow>
                                           (let s4 = s3\<lparr>pr_levelHighScores := m1\<rparr>
                                            in case (if truthy (js_get data ''levelMaxCombos'')
                                                     then newMap (js_get data ''levelMaxCombos'')
                                                     else Some (pr_levelMaxCombos s4)) of
                                                 None \<Rightarrow> s4
                                               | Some m2 \<Rightarrow>
                                                   loadKeybinds (js_get data ''keybinds'') laneCount'
                                                     (s4\<lparr>pr_levelMaxCombos := m2\<rparr>)))))))"


section \<open>States used as examples\<close>


text \<open>
  A level attempt about to end: \<open>highest\<close> levels are unlocked, level \<open>levelNum\<close> is
  being played and \<open>points\<close> is the score.
\<close>

definition finishedLevel :: "int \<Rightarrow> int \<Rightarrow> int \<Rightarrow> Engine" where
  "finishedLevel highest levelNum points =
     (GameEngine 800 600 (\<lambda>_. 0))
       \<lparr>screen := Playing, currentLevelNum := levelNum, highestLevel := highest,
        score := \<lparr>score_current = points, score_display = 0, perfectCount = 0, greatCount = 0,
                  goodCount = 0, missCount = 10\<rparr>\<rparr>"



text \<open>The pattern list of level 1.\<close>

definition level1Patterns :: "NotePattern list" where
  "level1Patterns =
    [\<lparr>pattern_time = 42 / 187, pattern_lanes = [3], pattern_type = Normal\<rparr>,
     \<lparr>pattern_time = 60 / 187, pattern_lanes = [0], pattern_type = Normal\<rparr>,
     \<lparr>pattern_time = 72 / 187, pattern_lanes = [1], pattern_type = Normal\<rparr>,
     \<lparr>pattern_time = 78 / 187, pattern_lanes = [1], pattern_type = Normal\<rparr>,
     \<lparr>pattern_time = 84 / 187, pattern_lanes = [1], pattern_type = Normal\<rparr>,
     \<lparr>pattern_time = 90 / 187, pattern_lanes = [1], pattern_type = Normal\<rparr>,
     \<lparr>pattern_time = 108 / 187, pattern_lanes = [3], pattern_type = Normal\<rparr>,
     \<lparr>pattern_time = 114 / 187, pattern_lanes = [3], pattern_type = Normal\<rparr>,
     \<lparr>pattern_time = 138 / 187, pattern_lanes = [1], pattern_type = Normal\<rparr>,
     \<lparr>pattern_time = 144 / 187, pattern_lanes = [0], pattern_type = Normal\<rparr>,
     \<lparr>pattern_time = 9 / 11, pattern_lanes = [1], pattern_type = Normal\<rparr>,
     \<lparr>pattern_time = 156 / 187, pattern_lanes = [1], pattern_type = Normal\<rparr>,
     \<lparr>pattern_time = 162 / 187, pattern_lanes = [2], pattern_type = Normal\<rparr>,
     \<lparr>pattern_time = 171 / 187, pattern_lanes = [2], pattern_type = Normal\<rparr>,
     \<lparr>pattern_time = 174 / 187, pattern_lanes = [2], pattern_type = Normal\<rparr>,
     \<lparr>pattern_time = 180 / 187, pattern_lanes = [3], pattern_type = Normal\<rparr>]"

text \<open>An engine on a canvas of 3840 by 2160.\<close>

definition bigCanvas :: Engine where
  "bigCanvas = GameEngine 3840 2160 (\<lambda>_. 1 / 2)"


text \<open>The invariant of the combo that C5 states.\<close>

definition comboInvariant :: "ComboState \<Rightarrow> bool" where
  "comboInvariant c \<longleftrightarrow> multiplier c = 1 + real_of_int (combo_current c div 10) * (1 / 10)"

text \<open>An unresolved note in a lane at a height.\<close>

definition noteAt :: "nat \<Rightarrow> nat \<Rightarrow> real \<Rightarrow> Note" where
  "noteAt k laneIndex height =
     \<lparr>note_id = k, note_lane = laneIndex, note_type = Normal, spawnTime = 0, hitTime = 0,
      note_y = height, hit = False, missed = False, rating = None\<rparr>"

text \<open>
  Level 1 in play on a canvas of 800 by 600 (the hit line is at 510), ten seconds in,
  with the given notes, every upgrade at level \<open>lvl\<close>, \<open>Math.random()\<close> returning \<open>r\<close>,
  and the next beat far ahead.
\<close>

definition playingWith :: "nat \<Rightarrow> real \<Rightarrow> Note list \<Rightarrow> Engine" where
  "playingWith lvl r ns =
     (GameEngine 800 600 (\<lambda>_. r))
       \<lparr>screen := Playing, gameTime := 10, activeNotes := ns,
        upgrades := map (\<lambda>u. u\<lparr>currentLevel := lvl\<rparr>) (upgrades (GameEngine 800 600 (\<lambda>_. r))),
        currentLevelConfig := Some \<lparr>bpm = 85, duration = 22, difficulty = 1, patterns = level1Patterns\<rparr>,
        nextBeatTime := 100, levelRng := Some 12345\<rparr>"

text \<open>The same with one note 30 above the hit line in lane 0 and a combo of 9.\<close>

definition midCombo :: "nat \<Rightarrow> real \<Rightarrow> Engine" where
  "midCombo lvl r =
     (playingWith lvl r [noteAt 0 0 480])
       \<lparr>combo := \<lparr>combo_current = 9, combo_max = 9, multiplier = 1\<rparr>\<rparr>"

text \<open>A value that is an object of own properties.\<close>

fun is_JObj :: "jsval \<Rightarrow> bool" where
  "is_JObj (JObj kvs) = True"
| "is_JObj v = False"

text \<open>
  What \<open>JSON.parse\<close> returns for the text \<open>{"highestLevel": 7, "levelHighScores": 5}\<close>.
\<close>

definition mismatchedSave :: jsval where
  "mismatchedSave = JObj [(''highestLevel'', JNum 7), (''levelHighScores'', JNum 5)]"


text \<open>Level 1, whose duration is 22 seconds, 100 seconds in and without a miss.\<close>

definition lateAndClean :: Engine where
  "lateAndClean = (playingWith 0 (1 / 2) [])\<lparr>gameTime := 100\<rparr>"

text \<open>Level 1 with nine misses and a note about to be missed.\<close>

definition nineMisses :: Engine where
  "nineMisses =
     (playingWith 0 (1 / 2) [noteAt 0 0 480])
       \<lparr>score := \<lparr>score_current = 0, score_display = 0, perfectCount = 0, greatCount = 0,
                 goodCount = 0, missCount = 9\<rparr>\<rparr>"








section \<open>Rounding to a double\<close>

lemma expo53_small: "n < 9007199254740992 \<Longrightarrow> expo53 n = 0"
  by (simp add: expo53.simps)

lemma expo53_bounds:
  "9007199254740992 \<le> n \<Longrightarrow>
     0 < expo53 n \<and> 4503599627370496 \<le> n div 2 ^ expo53 n \<and> n div 2 ^ expo53 n < 9007199254740992"
proof (induction n rule: expo53.induct)
  case (1 n)
  have e: "expo53 n = Suc (expo53 (n div 2))"
    using "1.prems" by (subst expo53.simps) simp
  show ?case
  proof (cases "n div 2 < 9007199254740992")
    case True
    then have "expo53 (n div 2) = 0" by (rule expo53_small)
    with e True "1.prems" show ?thesis by simp
  next
    case False
    then have big: "9007199254740992 \<le> n div 2" by simp
    have nn: "\<not> n < 9007199254740992" using "1.prems" by simp
    from "1.IH" [OF nn big]
    have ih: "4503599627370496 \<le> n div 2 div 2 ^ expo53 (n div 2)"
         "n div 2 div 2 ^ expo53 (n div 2) < 9007199254740992" by simp_all
    have "n div 2 ^ expo53 n = n div 2 div 2 ^ expo53 (n div 2)"
      by (simp add: e zdiv_zmult2_eq)
    with ih e show ?thesis by simp
  qed
qed

text \<open>Integers below \<open>2^53\<close> in absolute value are doubles.\<close>

lemma fl_exact: "\<bar>n\<bar> < 9007199254740992 \<Longrightarrow> fl n = n"
  by (simp add: fl_def Let_def expo53_small)

text \<open>From \<open>2^53\<close> on, a double is an even integer.\<close>

lemma fl_big:
  assumes "9007199254740992 \<le> \<bar>n\<bar>"
  shows "even (fl n) \<and> 9007199254740992 \<le> \<bar>fl n\<bar>"
proof -
  define m where "m = \<bar>n\<bar>"
  define e where "e = expo53 m"
  define q where "q = m div 2 ^ e"
  define r where "r = m mod 2 ^ e"
  define q' where "q' = (if 2 ^ e < 2 * r \<or> (2 * r = 2 ^ e \<and> odd q) then q + 1 else q)"
  from expo53_bounds [of m] assms
  have e0: "0 < e" and ql: "4503599627370496 \<le> q" and qu: "q < 9007199254740992"
    by (simp_all add: m_def e_def q_def)
  have f: "fl n = sgn n * q' * 2 ^ e"
    using e0 by (simp add: fl_def Let_def m_def e_def q_def r_def q'_def)
  have ev: "even (fl n)" using e0 by (simp add: f)
  have q'l: "4503599627370496 \<le> q'" using ql by (simp add: q'_def)
  have n0: "n \<noteq> 0" using assms by auto
  have two: "(2::int) \<le> 2 ^ e" using e0 by (cases e) (simp_all add: self_le_power)
  have abs: "\<bar>fl n\<bar> = q' * 2 ^ e"
    using n0 q'l by (simp add: f abs_mult abs_sgn_eq)
  have "4503599627370496 * 2 \<le> q' * (2 ^ e :: int)"
    by (rule mult_mono) (use q'l two in simp_all)
  with abs ev show ?thesis by simp
qed

section \<open>The sequence generator\<close>

text \<open>
  Where the product is exact, the step cannot reach \<open>2^31 - 1\<close>: the only seeds that
  the integer recurrence sends there are congruent to 230538014 modulo \<open>2^31\<close>.
\<close>

lemma lcg_exact_ne_max:
  assumes "\<bar>s * 1103515245\<bar> < (9007199254740992::int)"
  shows "(s * 1103515245 + 12345) mod 2147483648 \<noteq> (2147483647::int)"
proof
  assume h: "(s * 1103515245 + 12345) mod 2147483648 = (2147483647::int)"
  have "(s * 1103515245 + 12345 + 1) mod 2147483648 = (2147483647 + 1) mod (2147483648::int)"
    using h by (metis mod_add_left_eq)
  then have "(s * 1103515245 + 12346) mod 2147483648 = (0::int)" by (simp add: add.commute)
  then have "(2147483648::int) dvd s * 1103515245 + 12346" by (simp only: dvd_eq_mod_eq_0)
  then have "(2147483648::int) dvd 1857678181 * (s * 1103515245 + 12346)" by (rule dvd_mult)
  moreover have "1857678181 * (s * 1103515245 + 12346)
      = s + 22934894822626 + 2147483648 * (954594553 * s)" by (simp add: algebra_simps)
  ultimately have "(2147483648::int) dvd s + 22934894822626"
    by (metis dvd_add_times_triv_right_iff mult.commute)
  then obtain j where j: "s + 22934894822626 = 2147483648 * j" by (auto elim: dvdE)
  from assms have b: "- 8162279 < s \<and> s < 8162279" by linarith
  show False
  proof (cases "j \<le> 10679")
    case True
    then have "2147483648 * j \<le> 2147483648 * 10679" by simp
    with j b show False by simp
  next
    case False
    then have "10680 \<le> j" by simp
    then have "2147483648 * 10680 \<le> 2147483648 * j" by simp
    with j b show False by simp
  qed
qed

text \<open>With the rounding, no seed at all is sent to \<open>2^31 - 1\<close>.\<close>

lemma lcg_seed_ne_max: "fl (fl (s * 1103515245) + 12345) mod 2147483648 \<noteq> 2147483647"
proof -
  define p where "p = fl (s * 1103515245)"
  show ?thesis
  proof (cases "\<bar>p + 12345\<bar> < 9007199254740992")
    case False
    then have "even (fl (p + 12345))" using fl_big [of "p + 12345"] by simp
    then have "even (fl (p + 12345) mod 2147483648)"
      by (simp add: dvd_mod_iff)
    then show ?thesis unfolding p_def by auto
  next
    case small: True
    then have v: "fl (p + 12345) = p + 12345" by (rule fl_exact)
    show ?thesis
    proof (cases "\<bar>s * 1103515245\<bar> < 9007199254740992")
      case True
      then have "p = s * 1103515245" unfolding p_def by (rule fl_exact)
      with lcg_exact_ne_max [OF True] v show ?thesis unfolding p_def by simp
    next
      case False
      then have pb: "9007199254740992 \<le> \<bar>p\<bar>"
        using fl_big [of "s * 1103515245"] by (simp add: p_def)
      with small have r: "- 9007199254740992 - 12345 < p" "p \<le> - 9007199254740992" by auto
      have "(p + 12345) mod 2147483648 = (p + 12345 + 4194304 * 2147483648) mod 2147483648"
        by (simp only: mod_mult_self1)
      also have "\<dots> = p + 12345 + 9007199254740992"
        using r by simp
      finally have "(p + 12345) mod 2147483648 \<le> 12345" using r by simp
      with v show ?thesis unfolding p_def by simp
    qed
  qed
qed

lemma next_seed_range:
  "0 \<le> snd (SeededRandom_next seed) \<and> snd (SeededRandom_next seed) < 2147483647"
proof -
  have "fl (fl (seed * 1103515245) + 12345) mod 2147483648 < 2147483648" by simp
  with lcg_seed_ne_max [of seed] show ?thesis
    by (simp add: SeededRandom_next_def Let_def)
qed

lemma next_value: "fst (SeededRandom_next seed) = real_of_int (snd (SeededRandom_next seed)) / 2147483647"
  by (simp add: SeededRandom_next_def Let_def)

lemma next_value_range: "0 \<le> fst (SeededRandom_next seed) \<and> fst (SeededRandom_next seed) < 1"
  using next_seed_range [of seed] by (simp add: next_value)

text \<open>
  C4 (as the code has it). \<open>next()\<close> replaces the seed by the low 31 bits of
  \<open>seed * 1103515245 + 12345\<close> computed in double arithmetic, the product and the sum
  each rounded to a double. Where the product and the sum stay below \<open>2^53\<close> this is
  the integer recurrence modulo \<open>2^31\<close>. The new seed lies in \<open>[0, 2^31 - 2]\<close>, and the
  value returned is the new seed divided by \<open>2^31 - 1\<close>, a number in \<open>[0, 1)\<close>.
\<close>

theorem SeededRandom_next_double:
  "snd (SeededRandom_next seed) = fl (fl (seed * 1103515245) + 12345) mod 2147483648
   \<and> (\<bar>seed * 1103515245\<bar> + 12345 < 9007199254740992
        \<longrightarrow> snd (SeededRandom_next seed) = (seed * 1103515245 + 12345) mod 2147483648)
   \<and> 0 \<le> snd (SeededRandom_next seed) \<and> snd (SeededRandom_next seed) < 2147483647
   \<and> fst (SeededRandom_next seed) = real_of_int (snd (SeededRandom_next seed)) / 2147483647
   \<and> 0 \<le> fst (SeededRandom_next seed) \<and> fst (SeededRandom_next seed) < 1"
proof -
  have d: "snd (SeededRandom_next seed) = fl (fl (seed * 1103515245) + 12345) mod 2147483648"
    by (simp add: SeededRandom_next_def Let_def)
  have x: "snd (SeededRandom_next seed) = (seed * 1103515245 + 12345) mod 2147483648"
    if "\<bar>seed * 1103515245\<bar> + 12345 < 9007199254740992"
  proof -
    have "fl (seed * 1103515245) = seed * 1103515245" using that by (intro fl_exact) simp
    moreover have "fl (seed * 1103515245 + 12345) = seed * 1103515245 + 12345"
      using that by (intro fl_exact) linarith
    ultimately show ?thesis by (simp add: d)
  qed
  from d x next_seed_range [of seed] next_value [of seed] next_value_range [of seed]
  show ?thesis by blast
qed

text \<open>The first call for level 1, whose seed is 12345: the step is exact.\<close>

theorem SeededRandom_next_double_witness:
  "\<bar>12345 * 1103515245\<bar> + 12345 < (9007199254740992::int)
   \<and> snd (SeededRandom_next 12345) = 1406932606
   \<and> fst (SeededRandom_next 12345) = 1406932606 / 2147483647"
  using SeededRandom_next_double [of 12345] by simp

text \<open>
  C4 as stated fails: the second call for level 1 starts from the seed 1406932606,
  the product exceeds \<open>2^53\<close>, and the new seed 654583808 is not the 654583775 of the
  integer recurrence.
\<close>

theorem SeededRandom_next_exact_counterexample:
  "snd (SeededRandom_next 1406932606) \<noteq> (1406932606 * 1103515245 + 12345) mod 2147483648"
  by (simp add: SeededRandom_next_def fl_def expo53.simps Let_def)

section \<open>The cost of an upgrade\<close>






section \<open>The end of a level\<close>

lemma endLevel_highestLevel:
  "highestLevel (endLevel e) =
     (if currentLevelNum e \<ge> highestLevel e \<and> score_current (score e) \<ge> 1000 * currentLevelNum e
      then currentLevelNum e + 1 else highestLevel e)"
  by (simp add: endLevel_def Let_def)

text \<open>
  C6 (as the code has it). When a level attempt ends, \<open>highestLevel\<close> is raised to
  \<open>levelNum + 1\<close> if and only if the score is at least \<open>1000 * levelNum\<close> and the
  level finished is at least \<open>highestLevel\<close>; otherwise it is left as it is. Finishing
  the frontier level with exactly \<open>1000 * levelNum\<close> unlocks the next level, and one
  point less does not.
\<close>

theorem endLevel_unlock:
  "(highestLevel (endLevel e) = currentLevelNum e + 1 \<and> highestLevel e < highestLevel (endLevel e)
      \<longleftrightarrow> score_current (score e) \<ge> 1000 * currentLevelNum e \<and> currentLevelNum e \<ge> highestLevel e)
   \<and> (\<not> (score_current (score e) \<ge> 1000 * currentLevelNum e \<and> currentLevelNum e \<ge> highestLevel e)
        \<longrightarrow> highestLevel (endLevel e) = highestLevel e)
   \<and> (currentLevelNum e = highestLevel e \<and> score_current (score e) = 1000 * currentLevelNum e
        \<longrightarrow> highestLevel (endLevel e) = currentLevelNum e + 1)
   \<and> (currentLevelNum e = highestLevel e \<and> score_current (score e) = 1000 * currentLevelNum e - 1
        \<longrightarrow> highestLevel (endLevel e) = highestLevel e)"
  by (auto simp: endLevel_highestLevel)

theorem endLevel_unlock_witness:
  "highestLevel (endLevel (finishedLevel 3 3 3000)) = 4
   \<and> highestLevel (endLevel (finishedLevel 3 3 2999)) = 3
   \<and> highestLevel (endLevel (finishedLevel 3 2 2000)) = 3"
  using endLevel_unlock [of "finishedLevel 3 3 3000"] endLevel_unlock [of "finishedLevel 3 3 2999"]
    endLevel_unlock [of "finishedLevel 3 2 2000"]
  by (simp add: finishedLevel_def)

text \<open>
  C6 as stated fails. With three levels unlocked, finishing level 2 with 2000 points
  meets the stated condition (\<open>2 \<ge> 3 - 1\<close>) and \<open>highestLevel\<close> stays 3, nothing is
  raised; read as an equation on the value afterwards it fails too, since with 0
  points \<open>highestLevel\<close> is \<open>levelNum + 1\<close> all the same.
\<close>

theorem endLevel_unlock_counterexample:
  "(score_current (score (finishedLevel 3 2 2000)) \<ge> 1000 * currentLevelNum (finishedLevel 3 2 2000)
      \<and> currentLevelNum (finishedLevel 3 2 2000) \<ge> highestLevel (finishedLevel 3 2 2000) - 1)
   \<and> highestLevel (endLevel (finishedLevel 3 2 2000)) = highestLevel (finishedLevel 3 2 2000)
   \<and> \<not> (score_current (score (finishedLevel 3 2 0)) \<ge> 1000 * currentLevelNum (finishedLevel 3 2 0))
   \<and> highestLevel (endLevel (finishedLevel 3 2 0)) = currentLevelNum (finishedLevel 3 2 0) + 1"
  by (simp add: endLevel_highestLevel finishedLevel_def)

section \<open>Evaluating the generator\<close>

text \<open>
  Rules that unfold the generator at a literal seed only, so that the simplifier runs
  the code on concrete inputs and leaves everything else alone.
\<close>

lemma expo53_numeral:
  "expo53 (numeral k) =
     (if (numeral k :: int) < 9007199254740992 then 0 else Suc (expo53 (numeral k div 2)))"
  by (rule expo53.simps)

lemma fl_numeral:
  "fl (numeral k) =
     (if expo53 (numeral k) = 0 then numeral k
      else (if (2::int) ^ expo53 (numeral k) < 2 * (numeral k mod 2 ^ expo53 (numeral k))
               \<or> (2 * (numeral k mod 2 ^ expo53 (numeral k)) = (2::int) ^ expo53 (numeral k)
                    \<and> odd (numeral k div (2::int) ^ expo53 (numeral k)))
            then numeral k div 2 ^ expo53 (numeral k) + 1
            else numeral k div 2 ^ expo53 (numeral k)) * 2 ^ expo53 (numeral k))"
  by (simp add: fl_def Let_def)

lemma next_numeral:
  "SeededRandom_next (numeral k) =
     (real_of_int (fl (fl (numeral k * 1103515245) + 12345) mod 2147483648) / 2147483647,
      fl (fl (numeral k * 1103515245) + 12345) mod 2147483648)"
  by (simp add: SeededRandom_next_def Let_def)

lemmas rng_eval = next_numeral fl_numeral expo53_numeral

lemma beatLoop_numeral:
  "beatLoop beat totalBeats beatDuration dur diff (numeral k) acc =
     (if beat < totalBeats
      then (let time = (real_of_int beat * beatDuration) / dur
            in if beat < 4 then beatLoop (beat + 1) totalBeats beatDuration dur diff (numeral k) acc
               else (case mainBeat (5 / 10 + min (diff * (8 / 100)) (4 / 10))
                            (min (5 / 100 + diff * (5 / 100)) (4 / 10)) (numeral k) of
                       None \<Rightarrow> None
                     | Some (ls, s1) \<Rightarrow>
                         (let acc1 = (if ls = [] then acc
                                      else acc @ [\<lparr>pattern_time = time, pattern_lanes = ls,
                                                   pattern_type = Normal\<rparr>]);
                              (ps2, s2) = offBeat (min (diff * (8 / 100)) (5 / 10)) time beatDuration dur s1;
                              (ps3, s3) = triplets diff time beatDuration dur s2
                          in beatLoop (beat + 1) totalBeats beatDuration dur diff s3 (acc1 @ ps2 @ ps3))))
      else Some acc)"
  by (rule beatLoop.simps)

text \<open>Level 1, run in full: 27 beats after the warm-up, 84 draws.\<close>

lemma level1_beatLoop:
  "map_option (sort_key pattern_time) (beatLoop 0 31 (12 / 17) 22 1 12345 []) = Some level1Patterns"
  by (simp add: beatLoop_numeral mainBeat_def offBeat_def triplets_def Let_def rng_eval
      level1Patterns_def)

lemma generateLevel_1:
  "generateLevel 1 = Some \<lparr>bpm = 85, duration = 22, difficulty = 1, patterns = level1Patterns\<rparr>"
  by (simp add: generateLevel_def generatePatterns_def level1_beatLoop rng_eval)

section \<open>The level generator\<close>



section \<open>Live spawning and the pattern list\<close>

lemmas engine_eval = update_def updateGameplay_def spawnAndMove_def spawnBeat_def
  liveMainBeat_def pushNote_def finishTick_def js_rem_def effectiveSpeed_def
  updateParticles_def updateFloatingTexts_def updateDisplayScore_def
  GameEngine_def DEFAULT_CONFIG_def UPGRADE_DEFINITIONS_def LANE_KEYS_def LANE_COLORS_def
  UpgradeDef.extend_def UpgradeDef.defs Upgrade.defs Let_def









section \<open>What the cosmetic effects leave alone\<close>

lemma addFloatingText_frame [simp]:
  "combo (addFloatingText x y t c s e) = combo e"
  "score (addFloatingText x y t c s e) = score e"
  "activeNotes (addFloatingText x y t c s e) = activeNotes e"
  "lanes (addFloatingText x y t c s e) = lanes e"
  "screen (addFloatingText x y t c s e) = screen e"
  "canvasHeight (addFloatingText x y t c s e) = canvasHeight e"
  "canvasWidth (addFloatingText x y t c s e) = canvasWidth e"
  "config (addFloatingText x y t c s e) = config e"
  "upgrades (addFloatingText x y t c s e) = upgrades e"
  "gameTime (addFloatingText x y t c s e) = gameTime e"
  "isPaused (addFloatingText x y t c s e) = isPaused e"
  "currentLevelConfig (addFloatingText x y t c s e) = currentLevelConfig e"
  "levelRng (addFloatingText x y t c s e) = levelRng e"
  "highestLevel (addFloatingText x y t c s e) = highestLevel e"
  "currentLevelNum (addFloatingText x y t c s e) = currentLevelNum e"
  by (simp_all add: addFloatingText_def)

lemma particleLoop_frame:
  "combo (particleLoop k i x y c e) = combo e
   \<and> score (particleLoop k i x y c e) = score e
   \<and> activeNotes (particleLoop k i x y c e) = activeNotes e
   \<and> lanes (particleLoop k i x y c e) = lanes e
   \<and> screen (particleLoop k i x y c e) = screen e
   \<and> canvasHeight (particleLoop k i x y c e) = canvasHeight e
   \<and> config (particleLoop k i x y c e) = config e
   \<and> upgrades (particleLoop k i x y c e) = upgrades e
   \<and> gameTime (particleLoop k i x y c e) = gameTime e
   \<and> isPaused (particleLoop k i x y c e) = isPaused e
   \<and> currentLevelConfig (particleLoop k i x y c e) = currentLevelConfig e
   \<and> levelRng (particleLoop k i x y c e) = levelRng e
   \<and> highestLevel (particleLoop k i x y c e) = highestLevel e
   \<and> currentLevelNum (particleLoop k i x y c e) = currentLevelNum e"
  by (induction k arbitrary: i e) (simp_all add: Math_random_def Let_def)

lemma spawnHitParticles_frame [simp]:
  "combo (spawnHitParticles x y c e) = combo e"
  "score (spawnHitParticles x y c e) = score e"
  "activeNotes (spawnHitParticles x y c e) = activeNotes e"
  "lanes (spawnHitParticles x y c e) = lanes e"
  "screen (spawnHitParticles x y c e) = screen e"
  "canvasHeight (spawnHitParticles x y c e) = canvasHeight e"
  "config (spawnHitParticles x y c e) = config e"
  "upgrades (spawnHitParticles x y c e) = upgrades e"
  "gameTime (spawnHitParticles x y c e) = gameTime e"
  "isPaused (spawnHitParticles x y c e) = isPaused e"
  "currentLevelConfig (spawnHitParticles x y c e) = currentLevelConfig e"
  "levelRng (spawnHitParticles x y c e) = levelRng e"
  "highestLevel (spawnHitParticles x y c e) = highestLevel e"
  "currentLevelNum (spawnHitParticles x y c e) = currentLevelNum e"
  by (simp_all add: spawnHitParticles_def particleLoop_frame)

section \<open>The combo\<close>

text \<open>\<open>hitNote\<close> and \<open>missNote\<close> return unless the note's lane does not exist.\<close>

lemma hitNote_returns:
  "hitNote i d e \<noteq> None \<longleftrightarrow> note_lane (activeNotes e ! i) < length (lanes e)"
  by (simp add: hitNote_def Let_def split_def)

lemma hitNote_combo:
  assumes "hitNote i d e = Some e'"
  shows "combo e' = \<lparr>combo_current = combo_current (combo e) + 1,
                      combo_max = max (combo_max (combo e)) (combo_current (combo e) + 1),
                      multiplier = 1 + real_of_int ((combo_current (combo e) + 1) div 10) * (1 / 10)\<rparr>"
  using assms by (auto simp: hitNote_def Let_def split_def split: if_splits)

lemma missNote_returns:
  "missNote i e \<noteq> None \<longleftrightarrow> note_lane (activeNotes e ! i) < length (lanes e)"
  by (simp add: missNote_def Let_def split_def Math_random_def)

lemma missNote_combo:
  assumes "missNote i e = Some e'"
  shows "combo e' = (if mathRandom e (randomCalls e) < shieldChance e then combo e
                     else (combo e)\<lparr>combo_current := 0, multiplier := 1\<rparr>)"
  using assms
  by (auto simp: missNote_def Let_def split_def Math_random_def shieldChance_def split: if_splits)

lemma startLevel_combo:
  assumes "startLevel n e = Some e'"
  shows "combo e' = \<lparr>combo_current = 0, combo_max = 0, multiplier = 1\<rparr>"
  using assms by (auto simp: startLevel_def split: option.splits)

text \<open>
  C5. \<open>combo.current\<close> changes in three places. \<open>startLevel\<close> sets it to 0 and
  \<open>hitNote\<close> adds 1, and both leave \<open>multiplier = 1 + floor(current / 10) * 0.1\<close>.
  \<open>missNote\<close> draws \<open>Math.random()\<close> against the shield chance: when the draw is
  not below it (an unshielded miss) \<open>current\<close> becomes 0 and the multiplier 1, which
  is the invariant again; when it is (a shielded miss) both stay as they are, and so
  does the invariant.
\<close>

theorem combo_multiplier_invariant:
  "(startLevel n e0 = Some e1 \<longrightarrow> combo_current (combo e1) = 0 \<and> comboInvariant (combo e1))
   \<and> (hitNote i d e = Some e2 \<longrightarrow>
        combo_current (combo e2) = combo_current (combo e) + 1 \<and> comboInvariant (combo e2))
   \<and> (missNote j e = Some e3 \<and> \<not> mathRandom e (randomCalls e) < shieldChance e \<longrightarrow>
        combo_current (combo e3) = 0 \<and> multiplier (combo e3) = 1 \<and> comboInvariant (combo e3))
   \<and> (missNote j e = Some e3 \<and> mathRandom e (randomCalls e) < shieldChance e \<longrightarrow>
        combo_current (combo e3) = combo_current (combo e) \<and> multiplier (combo e3) = multiplier (combo e)
        \<and> (comboInvariant (combo e) \<longrightarrow> comboInvariant (combo e3)))"
  by (auto simp: comboInvariant_def dest!: startLevel_combo hitNote_combo missNote_combo)


text \<open>
  A start of level 1; then, from a combo of 9: a hit (combo 10, multiplier 1.1), a miss
  without the shield upgrade, and a miss with it at level 1 and a draw of 0.
\<close>

theorem combo_multiplier_invariant_witness:
  "map_option combo (startLevel 1 bigCanvas) = Some \<lparr>combo_current = 0, combo_max = 0, multiplier = 1\<rparr>
   \<and> map_option (\<lambda>e. (combo_current (combo e), multiplier (combo e))) (hitNote 0 30 (midCombo 0 (1 / 2)))
       = Some (10, 11 / 10)
   \<and> map_option (\<lambda>e. (combo_current (combo e), multiplier (combo e))) (missNote 0 (midCombo 0 (1 / 2)))
       = Some (0, 1)
   \<and> map_option (\<lambda>e. (combo_current (combo e), multiplier (combo e))) (missNote 0 (midCombo 1 0))
       = Some (9, 1)"
proof -
  have l: "\<And>lvl r. note_lane (activeNotes (midCombo lvl r) ! 0) < length (lanes (midCombo lvl r))"
    by (simp add: midCombo_def playingWith_def noteAt_def GameEngine_def DEFAULT_CONFIG_def)
  have c: "\<And>lvl r. combo (midCombo lvl r) = \<lparr>combo_current = 9, combo_max = 9, multiplier = 1\<rparr>"
    by (simp add: midCombo_def)
  have sc0: "shieldChance (midCombo 0 (1 / 2)) = 0"
    by (simp add: shieldChance_def midCombo_def playingWith_def GameEngine_def
        UPGRADE_DEFINITIONS_def UpgradeDef.extend_def UpgradeDef.defs Upgrade.defs)
  have sc1: "shieldChance (midCombo 1 0) = 8 / 100"
    by (simp add: shieldChance_def midCombo_def playingWith_def GameEngine_def
        UPGRADE_DEFINITIONS_def UpgradeDef.extend_def UpgradeDef.defs Upgrade.defs)
  have r0: "mathRandom (midCombo 0 (1 / 2)) (randomCalls (midCombo 0 (1 / 2))) = 1 / 2"
    by (simp add: midCombo_def playingWith_def GameEngine_def)
  have r1: "mathRandom (midCombo 1 0) (randomCalls (midCombo 1 0)) = 0"
    by (simp add: midCombo_def playingWith_def GameEngine_def)
  obtain e1 where s: "startLevel 1 bigCanvas = Some e1"
    by (simp add: startLevel_def generateLevel_1)
  obtain e2 where h: "hitNote 0 30 (midCombo 0 (1 / 2)) = Some e2"
    using hitNote_returns [of 0 30 "midCombo 0 (1 / 2)"] l by auto
  obtain e3 where m: "missNote 0 (midCombo 0 (1 / 2)) = Some e3"
    using missNote_returns [of 0 "midCombo 0 (1 / 2)"] l by auto
  obtain e4 where m': "missNote 0 (midCombo 1 0) = Some e4"
    using missNote_returns [of 0 "midCombo 1 0"] l by auto
  have a: "combo e1 = \<lparr>combo_current = 0, combo_max = 0, multiplier = 1\<rparr>"
    using s by (rule startLevel_combo)
  from combo_multiplier_invariant [of 1 bigCanvas e1 0 30 "midCombo 0 (1 / 2)" e2 0 e3] h m sc0 r0 c
  have b: "combo_current (combo e2) = 10 \<and> multiplier (combo e2) = 11 / 10
           \<and> combo_current (combo e3) = 0 \<and> multiplier (combo e3) = 1"
    by (simp add: comboInvariant_def)
  from combo_multiplier_invariant [of 1 bigCanvas e1 0 30 "midCombo 1 0" e2 0 e4] m' sc1 r1 c
  have d: "combo_current (combo e4) = 9 \<and> multiplier (combo e4) = 1"
    by simp
  from a b d s h m m' show ?thesis by simp
qed

section \<open>Loading the saved progress\<close>

lemma js_get_not_object: "\<not> is_JObj data \<Longrightarrow> js_get data name = JUndefined"
  by (cases data) simp_all

lemma loadUpgrades_keeps:
  "pr_totalPoints (fst (loadUpgrades items s)) = pr_totalPoints s
   \<and> pr_highestLevel (fst (loadUpgrades items s)) = pr_highestLevel s"
  by (induction items arbitrary: s) (auto split: option.splits)

lemma loadKeybinds_keeps:
  "pr_totalPoints (loadKeybinds kb n s) = pr_totalPoints s
   \<and> pr_highestLevel (loadKeybinds kb n s) = pr_highestLevel s"
  by (simp add: loadKeybinds_def)

lemma loadProgress_not_load:
  "loadProgress parse n Unavailable s = s"
  "loadProgress parse n Absent s = s"
  "loadProgress parse n (Stored []) s = s"
  "parse blob = None \<Longrightarrow> loadProgress parse n (Stored blob) s = s"
  "parse blob = Some data \<Longrightarrow> nullish data \<Longrightarrow> loadProgress parse n (Stored blob) s = s"
  by (simp_all add: loadProgress_def)

lemma loadProgress_not_object:
  assumes "blob \<noteq> []" and "parse blob = Some data" and "\<not> nullish data" and "\<not> is_JObj data"
  shows "loadProgress parse n (Stored blob) s = s\<lparr>pr_totalPoints := JNum 0, pr_highestLevel := JNum 1\<rparr>"
  using assms
  by (simp add: loadProgress_def js_get_not_object js_or_def loadKeybinds_def)

lemma loadUpgrades_keeps':
  "loadUpgrades items s = (s', b) \<Longrightarrow>
     pr_totalPoints s' = pr_totalPoints s \<and> pr_highestLevel s' = pr_highestLevel s"
  using loadUpgrades_keeps [of items s] by simp

lemma loadProgress_first_fields:
  assumes "blob \<noteq> []" and "parse blob = Some data" and "\<not> nullish data"
  shows "pr_totalPoints (loadProgress parse n (Stored blob) s) = js_or (js_get data ''totalPoints'') (JNum 0)
       \<and> pr_highestLevel (loadProgress parse n (Stored blob) s) = js_or (js_get data ''highestLevel'') (JNum 1)"
  using assms
  by (auto simp: loadProgress_def Let_def loadKeybinds_keeps
      split: option.splits prod.splits bool.splits if_splits
      dest!: loadUpgrades_keeps')

text \<open>
  C9 (as the code has it). \<open>loadProgress\<close> always returns: the model has no outcome
  but a state, every throw of the body being caught. When the storage cannot be read
  or holds nothing or the empty text, when the text is not JSON, and when it parses to
  \<open>null\<close>, the state is untouched; when it parses to a value that is not an object,
  the default initial state is left as it is. For any other value \<open>totalPoints\<close> and
  \<open>highestLevel\<close> take what the text holds (0 and 1 for a missing or falsy value),
  whatever becomes of the fields after them.
\<close>

theorem loadProgress_tolerant:
  "loadProgress parse n Unavailable s = s
   \<and> loadProgress parse n Absent s = s
   \<and> loadProgress parse n (Stored []) s = s
   \<and> (parse blob = None \<longrightarrow> loadProgress parse n (Stored blob) s = s)
   \<and> (parse blob = Some data \<and> nullish data \<longrightarrow> loadProgress parse n (Stored blob) s = s)
   \<and> (blob \<noteq> [] \<and> parse blob = Some data \<and> \<not> nullish data \<and> \<not> is_JObj data \<longrightarrow>
        loadProgress parse n (Stored blob) (progress_of (GameEngine width height rnd))
          = progress_of (GameEngine width height rnd))
   \<and> (blob \<noteq> [] \<and> parse blob = Some data \<and> \<not> nullish data \<longrightarrow>
        pr_totalPoints (loadProgress parse n (Stored blob) s)
          = js_or (js_get data ''totalPoints'') (JNum 0)
        \<and> pr_highestLevel (loadProgress parse n (Stored blob) s)
          = js_or (js_get data ''highestLevel'') (JNum 1))"
proof -
  have d: "(progress_of (GameEngine width height rnd))\<lparr>pr_totalPoints := JNum 0, pr_highestLevel := JNum 1\<rparr>
           = progress_of (GameEngine width height rnd)"
    by (simp add: progress_of_def GameEngine_def)
  show ?thesis
    using loadProgress_not_object [of blob parse data n "progress_of (GameEngine width height rnd)"]
      loadProgress_first_fields [of blob parse data n s] d
    by (simp add: loadProgress_not_load)
qed

text \<open>
  On the default state: a text that does not parse, the text \<open>null\<close>, the text \<open>42\<close>,
  and the object of the counterexample below.
\<close>

theorem loadProgress_tolerant_witness:
  "loadProgress (\<lambda>blob. None) 4 (Stored ''not json'') (progress_of (GameEngine 800 600 (\<lambda>_. 0)))
     = progress_of (GameEngine 800 600 (\<lambda>_. 0))
   \<and> loadProgress (\<lambda>blob. Some JNull) 4 (Stored ''null'') (progress_of (GameEngine 800 600 (\<lambda>_. 0)))
     = progress_of (GameEngine 800 600 (\<lambda>_. 0))
   \<and> loadProgress (\<lambda>blob. Some (JNum 42)) 4 (Stored ''42'') (progress_of (GameEngine 800 600 (\<lambda>_. 0)))
     = progress_of (GameEngine 800 600 (\<lambda>_. 0))
   \<and> pr_highestLevel (loadProgress (\<lambda>blob. Some mismatchedSave) 4 (Stored ''saved'')
        (progress_of (GameEngine 800 600 (\<lambda>_. 0)))) = JNum 7"
  using loadProgress_tolerant [of "\<lambda>blob. None" 4 "progress_of (GameEngine 800 600 (\<lambda>_. 0))" "''not json''" JNull 800 600 "\<lambda>_. 0"]
    loadProgress_tolerant [of "\<lambda>blob. Some JNull" 4 "progress_of (GameEngine 800 600 (\<lambda>_. 0))" "''null''" JNull 800 600 "\<lambda>_. 0"]
    loadProgress_tolerant [of "\<lambda>blob. Some (JNum 42)" 4 "progress_of (GameEngine 800 600 (\<lambda>_. 0))" "''42''" "JNum 42" 800 600 "\<lambda>_. 0"]
    loadProgress_tolerant [of "\<lambda>blob. Some mismatchedSave" 4 "progress_of (GameEngine 800 600 (\<lambda>_. 0))" "''saved''" mismatchedSave 800 600 "\<lambda>_. 0"]
  by (simp add: mismatchedSave_def js_or_def)

text \<open>
  C9 as stated fails on the text \<open>{"highestLevel": 7, "levelHighScores": 5}\<close>, which
  is JSON and not of the schema: \<open>highestLevel\<close> is set to 7 before \<open>new Map(5)\<close>
  throws, the \<open>catch\<close> swallows the error, and the engine is left with seven levels
  unlocked instead of one.
\<close>

theorem loadProgress_mismatch_counterexample:
  "loadProgress (\<lambda>blob. Some mismatchedSave) 4 (Stored ''saved'') (progress_of (GameEngine 800 600 (\<lambda>_. 0)))
     \<noteq> progress_of (GameEngine 800 600 (\<lambda>_. 0))
   \<and> pr_highestLevel (loadProgress (\<lambda>blob. Some mismatchedSave) 4 (Stored ''saved'')
        (progress_of (GameEngine 800 600 (\<lambda>_. 0)))) = JNum 7
   \<and> pr_highestLevel (progress_of (GameEngine 800 600 (\<lambda>_. 0))) = JNum 1"
proof -
  have h: "pr_highestLevel (loadProgress (\<lambda>blob. Some mismatchedSave) 4 (Stored ''saved'')
        (progress_of (GameEngine 800 600 (\<lambda>_. 0)))) = JNum 7"
    by (simp add: loadProgress_def mismatchedSave_def js_or_def newMap_def)
  have d: "pr_highestLevel (progress_of (GameEngine 800 600 (\<lambda>_. 0))) = JNum 1"
    by (simp add: progress_of_def GameEngine_def)
  from h d show ?thesis by auto
qed

section \<open>The gameplay tick\<close>

text \<open>Spawning and moving leave the screen, the canvas and (spawning) the score alone.\<close>

lemma pushNote_frame [simp]:
  "screen (pushNote l sp ht e) = screen e"
  "canvasHeight (pushNote l sp ht e) = canvasHeight e"
  "score (pushNote l sp ht e) = score e"
  by (simp_all add: pushNote_def)

lemma fold_pushNote_frame:
  "screen (fold (\<lambda>l. pushNote l sp ht) ls e) = screen e
   \<and> canvasHeight (fold (\<lambda>l. pushNote l sp ht) ls e) = canvasHeight e
   \<and> score (fold (\<lambda>l. pushNote l sp ht) ls e) = score e"
  by (induction ls arbitrary: e) simp_all

lemma spawnBeat_frame:
  assumes "spawnBeat beatInterval travelTime diff e = Some e'"
  shows "screen e' = screen e \<and> canvasHeight e' = canvasHeight e \<and> score e' = score e"
  using assms
  by (auto simp: spawnBeat_def Let_def case_prod_beta fold_pushNote_frame
      split: option.splits if_splits)

lemma spawnLoop_frame:
  assumes "spawnLoop bound beatInterval travelTime diff e = Some e'"
  shows "screen e' = screen e \<and> canvasHeight e' = canvasHeight e \<and> score e' = score e"
proof (rule spawnLoop.raw_induct
    [where P = "\<lambda>b bi tt d x y. screen y = screen x \<and> canvasHeight y = canvasHeight x \<and> score y = score x",
     OF _ assms])
  fix f b bi tt d x y
  assume ih: "\<And>b bi tt d x y. f b bi tt d x = Some y \<Longrightarrow>
                screen y = screen x \<and> canvasHeight y = canvasHeight x \<and> score y = score x"
    and body: "(if nextBeatTime x < b then Option.bind (spawnBeat bi tt d x) (f b bi tt d) else Some x) = Some y"
  show "screen y = screen x \<and> canvasHeight y = canvasHeight x \<and> score y = score x"
  proof (cases "nextBeatTime x < b")
    case True
    with body obtain x1 where s: "spawnBeat bi tt d x = Some x1" and r: "f b bi tt d x1 = Some y"
      by (auto simp: bind_eq_Some_conv)
    from ih [OF r] spawnBeat_frame [OF s] show ?thesis by simp
  next
    case False
    with body show ?thesis by simp
  qed
qed

lemma missNote_frame:
  assumes "missNote i e = Some e'"
  shows "screen e' = screen e \<and> canvasHeight e' = canvasHeight e
         \<and> length (activeNotes e') = length (activeNotes e)"
  using assms
  by (auto simp: missNote_def Let_def case_prod_beta Math_random_def split: if_splits)

lemma moveLoop_frame:
  assumes "moveLoop k i speed hitLine e = Some e'"
  shows "screen e' = screen e \<and> canvasHeight e' = canvasHeight e"
  using assms
proof (induction k arbitrary: i e)
  case 0
  then show ?case by simp
next
  case (Suc k)
  then show ?case
    by (auto simp: Let_def split: if_splits option.splits dest!: missNote_frame Suc.IH)
qed

lemma spawnAndMove_frame:
  assumes "spawnAndMove levelConfig deltaTime e = Some e'"
  shows "screen e' = screen e \<and> canvasHeight e' = canvasHeight e"
  using assms
  by (auto simp: spawnAndMove_def Let_def split: if_splits option.splits
      dest!: spawnLoop_frame moveLoop_frame)


lemma endLevel_frame [simp]:
  "screen (endLevel e) = Results"
  "activeNotes (endLevel e) = activeNotes e"
  "canvasHeight (endLevel e) = canvasHeight e"
  "score (endLevel e) = score e"
  by (simp_all add: endLevel_def Let_def)


lemma finishTick_screen:
  "screen (finishTick levelConfig e3) = (if missCount (score (finishTick levelConfig e3)) \<ge> 10 then Results else screen e3)"
  by (simp add: finishTick_def Let_def)


text \<open>Rules that run a tick on a concrete state.\<close>

lemmas engine_eval2 = engine_eval spawnLoop.simps missNote_def endLevel_def Math_random_def
  addFloatingText_def shieldChance_def mapGet_def playingWith_def noteAt_def



text \<open>A note that was hit stays where it was hit, and in the active set.\<close>

lemma resolved_note_is_kept:
  "map_option (\<lambda>e. map (\<lambda>n. (note_id n, note_y n, hit n)) (activeNotes e))
     (updateGameplay (1 / 10) (playingWith 0 (1 / 2) [(noteAt 7 0 510)\<lparr>hit := True\<rparr>]))
   = Some [(7, 510, True)]"
  by (simp add: engine_eval2)


section \<open>The end of the level\<close>

lemma updateGameplay_screen:
  assumes "screen e = Playing" and "updateGameplay deltaTime e = Some e'"
  shows "(screen e' = Results \<longleftrightarrow>
            currentLevelConfig e \<noteq> None \<and> levelRng e \<noteq> None \<and> missCount (score e') \<ge> 10)
         \<and> (screen e' = Playing \<or> screen e' = Results)"
proof (cases "currentLevelConfig e")
  case None
  with assms show ?thesis by (simp add: updateGameplay_def)
next
  case (Some levelConfig)
  show ?thesis
  proof (cases "levelRng e")
    case None
    with Some assms show ?thesis by (simp add: updateGameplay_def)
  next
    case (Some seed)
    with \<open>currentLevelConfig e = Some levelConfig\<close> assms
    obtain e3 where m: "spawnAndMove levelConfig deltaTime e = Some e3"
      and f: "e' = finishTick levelConfig e3"
      by (auto simp: updateGameplay_def)
    from spawnAndMove_frame [OF m] assms have p: "screen e3 = Playing" by simp
    from finishTick_screen [of levelConfig e3] f p
    have "screen e' = (if missCount (score e') \<ge> 10 then Results else Playing)" by simp
    with Some \<open>currentLevelConfig e = Some levelConfig\<close> show ?thesis by simp
  qed
qed

lemma after_gameplay_frame:
  "screen (updateDisplayScore d (updateFloatingTexts d (updateParticles d e))) = screen e
   \<and> missCount (score (updateDisplayScore d (updateFloatingTexts d (updateParticles d e))))
       = missCount (score e)"
  by (simp add: updateDisplayScore_def updateFloatingTexts_def updateParticles_def Let_def)

lemma update_after:
  assumes "update deltaTime e = Some e'"
  shows "\<exists>e1. (if screen e = Playing \<and> \<not> isPaused e then updateGameplay deltaTime e else Some e) = Some e1
           \<and> screen e' = screen e1 \<and> missCount (score e') = missCount (score e1)"
proof -
  from assms obtain e1 where
    g: "(if screen e = Playing \<and> \<not> isPaused e then updateGameplay deltaTime e else Some e) = Some e1"
    by (auto simp: update_def split: option.splits)
  from assms g after_gameplay_frame [of deltaTime e1]
  have "screen e' = screen e1 \<and> missCount (score e') = missCount (score e1)"
    by (auto simp: update_def Let_def split: if_splits)
  with g show ?thesis by blast
qed

lemma update_screen:
  assumes "screen e = Playing" and "update deltaTime e = Some e'"
  shows "(screen e' = Results \<longleftrightarrow>
            \<not> isPaused e \<and> currentLevelConfig e \<noteq> None \<and> levelRng e \<noteq> None
            \<and> missCount (score e') \<ge> 10)
         \<and> (screen e' = Playing \<or> screen e' = Results)"
proof -
  from update_after [OF assms(2)] obtain e1 where
    g: "(if screen e = Playing \<and> \<not> isPaused e then updateGameplay deltaTime e else Some e) = Some e1"
    and s: "screen e' = screen e1" and c: "missCount (score e') = missCount (score e1)"
    by blast
  show ?thesis
  proof (cases "isPaused e")
    case True
    with g assms s show ?thesis by simp
  next
    case False
    with g assms have "updateGameplay deltaTime e = Some e1" by simp
    from updateGameplay_screen [OF assms(1) this] s c False show ?thesis by auto
  qed
qed

lemma update_results:
  assumes "screen e = Results" and "update deltaTime e = Some e'"
  shows "screen e' = Results \<and> missCount (score e') = missCount (score e)"
  using update_after [OF assms(2)] assms(1) by auto

lemma frames_screen:
  assumes "frames dts e = Some e'"
    and "screen e = Playing \<or> (screen e = Results \<and> missCount (score e) \<ge> 10)"
  shows "screen e' = Playing \<or> (screen e' = Results \<and> missCount (score e') \<ge> 10)"
  using assms
proof (induction dts arbitrary: e)
  case Nil
  then show ?case by simp
next
  case (Cons d dts)
  from Cons.prems(1) obtain e1 where u: "update d e = Some e1" and r: "frames dts e1 = Some e'"
    by (auto split: option.splits)
  have "screen e1 = Playing \<or> (screen e1 = Results \<and> missCount (score e1) \<ge> 10)"
  proof (cases "screen e = Playing")
    case True
    from update_screen [OF True u] show ?thesis by auto
  next
    case False
    with Cons.prems(2) have "screen e = Results" "missCount (score e) \<ge> 10" by auto
    with update_results [OF \<open>screen e = Results\<close> u] show ?thesis by simp
  qed
  from Cons.IH [OF r this] show ?case .
qed

lemma hitNote_screen: "hitNote i d e = Some e' \<Longrightarrow> screen e' = screen e"
  by (auto simp: hitNote_def Let_def split_def split: if_splits)

lemma tryHitNote_screen: "tryHitNote l e = Some e' \<Longrightarrow> screen e' = screen e"
  by (auto simp: tryHitNote_def Let_def split: option.splits if_splits dest: hitNote_screen)

text \<open>
  C10. A frame that starts on the playing screen ends on the results screen if and
  only if the game is not paused (and a level is loaded) and the miss count after the
  frame is at least 10; otherwise it ends on the playing screen. The game time is no
  part of the condition. Over any run of frames from the playing screen, with fewer
  than 10 misses at its end the screen is still the playing screen. A lane press
  leaves the screen as it is.
\<close>

theorem results_only_by_misses:
  "(screen e = Playing \<and> update deltaTime e = Some e' \<longrightarrow>
      (screen e' = Results \<longleftrightarrow>
         \<not> isPaused e \<and> currentLevelConfig e \<noteq> None \<and> levelRng e \<noteq> None
         \<and> missCount (score e') \<ge> 10)
      \<and> (screen e' = Playing \<or> screen e' = Results))
   \<and> (screen e = Playing \<and> frames dts e = Some e'' \<and> missCount (score e'') < 10 \<longrightarrow>
        screen e'' = Playing)
   \<and> (tryHitNote laneIndex e = Some e3 \<longrightarrow> screen e3 = screen e)"
  using update_screen [of e deltaTime e'] frames_screen [of dts e e'']
    tryHitNote_screen [of laneIndex e e3]
  by auto

lemma lateAndClean_frames:
  "map_option (\<lambda>e. (missCount (score e), gameTime e))
     (frames [1 / 10, 1 / 10, 1 / 10] lateAndClean) = Some (0, 1003 / 10)"
  by (simp add: lateAndClean_def engine_eval2 rng_eval)

lemma nineMisses_update:
  "map_option (\<lambda>e. missCount (score e)) (update (1 / 10) nineMisses) = Some 10"
  by (simp add: nineMisses_def engine_eval2)

text \<open>
  Three frames at 100 seconds into the 22 seconds of level 1, without a miss: still
  playing. One frame with a tenth miss: the results screen.
\<close>

theorem results_only_by_misses_witness:
  "map_option (\<lambda>e. (screen e, missCount (score e), gameTime e))
     (frames [1 / 10, 1 / 10, 1 / 10] lateAndClean) = Some (Playing, 0, 1003 / 10)
   \<and> map_option (\<lambda>e. (screen e, missCount (score e))) (update (1 / 10) nineMisses) = Some (Results, 10)
   \<and> map_option (\<lambda>c. duration c < 100) (currentLevelConfig lateAndClean) = Some True"
proof -
  from lateAndClean_frames obtain e'' where
    f: "frames [1 / 10, 1 / 10, 1 / 10] lateAndClean = Some e''" and m: "missCount (score e'') = 0"
    and g: "gameTime e'' = 1003 / 10"
    by (cases "frames [1 / 10, 1 / 10, 1 / 10] lateAndClean") auto
  from nineMisses_update obtain e' where
    u: "update (1 / 10) nineMisses = Some e'" and m': "missCount (score e') = 10"
    by (cases "update (1 / 10) nineMisses") auto
  have p: "screen lateAndClean = Playing" "screen nineMisses = Playing" "\<not> isPaused nineMisses"
    "currentLevelConfig nineMisses \<noteq> None" "levelRng nineMisses \<noteq> None"
    by (simp_all add: lateAndClean_def nineMisses_def playingWith_def GameEngine_def)
  from results_only_by_misses [of lateAndClean "1 / 10" e' "[1 / 10, 1 / 10, 1 / 10]" e''] f m p
  have a: "screen e'' = Playing" by simp
  from results_only_by_misses [of nineMisses "1 / 10" e' "[]" nineMisses] u m' p
  have b: "screen e' = Results" by simp
  have c: "map_option (\<lambda>c. duration c < 100) (currentLevelConfig lateAndClean) = Some True"
    by (simp add: lateAndClean_def playingWith_def)
  from f m g a u m' b c show ?thesis by simp
qed

section \<open>The judgement of a press\<close>










end
